theory Spec2Isabelle
  imports Main "HOL-Library.Word"
begin

unbundle bit_operations_syntax

section \<open>Go library functions used by the signaling handler\<close>

text \<open>
  A Go \<^verbatim>\<open>string\<close> and a \<^verbatim>\<open>[]byte\<close> are byte sequences: \<^typ>\<open>string\<close> here.
  \<^verbatim>\<open>int64\<close> values are 64-bit words, compared as signed numbers.
\<close>

type_synonym int64 = "64 word"

text \<open>\<^verbatim>\<open>bytes.Index(s, []byte{sep})\<close>: position of the first \<open>sep\<close>, or \<open>-1\<close>.\<close>

fun Index :: "string \<Rightarrow> char \<Rightarrow> int" where
  "Index [] sep = - 1"
| "Index (x # xs) sep =
     (if x = sep then 0 else (let i = Index xs sep in if i < 0 then - 1 else i + 1))"

text \<open>\<^verbatim>\<open>strings.Split(s, string(sep))\<close> for a one-byte separator: every separator cuts.\<close>

fun Split :: "string \<Rightarrow> char \<Rightarrow> string list" where
  "Split [] sep = [[]]"
| "Split (x # xs) sep =
     (if x = sep then [] # Split xs sep
      else (case Split xs sep of [] \<Rightarrow> [[x]] | t # ts \<Rightarrow> (x # t) # ts))"

text \<open>\<^verbatim>\<open>strings.HasPrefix(s, prefix)\<close>.\<close>

definition HasPrefix :: "string \<Rightarrow> string \<Rightarrow> bool" where
  "HasPrefix s p = (take (length p) s = p)"

text \<open>Go's \<^verbatim>\<open><\<close> on strings: bytewise lexicographic order.\<close>

fun strLess :: "string \<Rightarrow> string \<Rightarrow> bool" where
  "strLess [] [] = False"
| "strLess [] (y # ys) = True"
| "strLess (x # xs) [] = False"
| "strLess (x # xs) (y # ys) =
     (if (of_char x :: nat) < of_char y then True
      else if x = y then strLess xs ys else False)"

section \<open>Frame validation in receiveProcess\<close>

text \<open>
  Lines 373-397 of the handler: the first 32 bytes must hold a \<open>|\<close>, then the whole
  message is split at every \<open>|\<close> and must fall into exactly two tokens.
\<close>

definition splitFrame :: "string \<Rightarrow> (string \<times> string) option" where
  "splitFrame message =
     (let checkLen = (if length message < 32 then length message else 32);
          idxPipe = Index (take checkLen message) (CHR ''|'')
      in if idxPipe < 0 then None
         else (let tok = Split message (CHR ''|'')
               in if length tok \<noteq> 2 then None
                  else Some (tok ! 0, tok ! 1)))"

section \<open>More of the Go library\<close>

text \<open>\<^verbatim>\<open>strconv.FormatInt(v, 10)\<close>.\<close>

function digitsOf :: "nat \<Rightarrow> string" where
  "digitsOf n =
     (if n < 10 then [''0123456789'' ! n]
      else digitsOf (n div 10) @ [''0123456789'' ! (n mod 10)])"
  by pat_completeness auto
termination
  by (relation "measure (\<lambda>n. n)") auto

declare digitsOf.simps [simp del]

definition FormatInt :: "int64 \<Rightarrow> string" where
  "FormatInt v =
     (let i = sint v in if i < 0 then CHR ''-'' # digitsOf (nat (- i)) else digitsOf (nat i))"

text \<open>
  \<^verbatim>\<open>strings.TrimSpace\<close> removes, at both ends, every rune that \<^verbatim>\<open>unicode.IsSpace\<close>
  accepts. \<open>spaceCodes\<close> lists their UTF-8 encodings; \<open>matchPrefix\<close> is the length of
  the first code the string starts with, \<open>0\<close> when there is none.
\<close>

definition spaceCodes :: "string list" where
  "spaceCodes =
     [[CHR 0x09], [CHR 0x0A], [CHR 0x0B], [CHR 0x0C], [CHR 0x0D], [CHR 0x20],
      [CHR 0xC2, CHR 0x85], [CHR 0xC2, CHR 0xA0], [CHR 0xE1, CHR 0x9A, CHR 0x80],
      [CHR 0xE2, CHR 0x80, CHR 0x80], [CHR 0xE2, CHR 0x80, CHR 0x81],
      [CHR 0xE2, CHR 0x80, CHR 0x82], [CHR 0xE2, CHR 0x80, CHR 0x83],
      [CHR 0xE2, CHR 0x80, CHR 0x84], [CHR 0xE2, CHR 0x80, CHR 0x85],
      [CHR 0xE2, CHR 0x80, CHR 0x86], [CHR 0xE2, CHR 0x80, CHR 0x87],
      [CHR 0xE2, CHR 0x80, CHR 0x88], [CHR 0xE2, CHR 0x80, CHR 0x89],
      [CHR 0xE2, CHR 0x80, CHR 0x8A], [CHR 0xE2, CHR 0x80, CHR 0xA8],
      [CHR 0xE2, CHR 0x80, CHR 0xA9], [CHR 0xE2, CHR 0x80, CHR 0xAF],
      [CHR 0xE2, CHR 0x81, CHR 0x9F], [CHR 0xE3, CHR 0x80, CHR 0x80]]"

fun matchPrefix :: "string list \<Rightarrow> string \<Rightarrow> nat" where
  "matchPrefix [] s = 0"
| "matchPrefix (p # ps) s =
     (if p \<noteq> [] \<and> take (length p) s = p then length p else matchPrefix ps s)"

lemma matchPrefix_nonempty: "0 < matchPrefix ps s \<Longrightarrow> s \<noteq> []"
  by (induction ps) (auto split: if_splits)

function stripCodes :: "string list \<Rightarrow> string \<Rightarrow> string" where
  "stripCodes ps s =
     (if matchPrefix ps s = 0 then s else stripCodes ps (drop (matchPrefix ps s) s))"
  by pat_completeness auto
termination
proof (relation "measure (\<lambda>(ps, s). length s)")
  show "wf (measure (\<lambda>(ps, s). length s))" by simp
next
  fix ps :: "string list" and s :: string
  assume "matchPrefix ps s \<noteq> 0"
  then have "s \<noteq> []" using matchPrefix_nonempty [of ps s] by simp
  with \<open>matchPrefix ps s \<noteq> 0\<close>
  show "((ps, drop (matchPrefix ps s) s), (ps, s)) \<in> measure (\<lambda>(ps, s). length s)"
    by simp
qed

declare stripCodes.simps [simp del]

definition TrimSpace :: "string \<Rightarrow> string" where
  "TrimSpace s = rev (stripCodes (map rev spaceCodes) (rev (stripCodes spaceCodes s)))"

text \<open>\<^verbatim>\<open>strings.Replace(s, string(a), string(b), -1)\<close> for one-byte strings.\<close>

definition Replace :: "string \<Rightarrow> char \<Rightarrow> char \<Rightarrow> string" where
  "Replace s a b = map (\<lambda>x. if x = a then b else x) s"

section \<open>Data model\<close>

text \<open>
  Pointers to \<^verbatim>\<open>WsClient\<close> and \<^verbatim>\<open>Hub\<close> objects are indices into two stores;
  a nil pointer is \<open>None\<close>. Dereferencing nil is the error \<open>NilPointer\<close>, an index
  outside a slice is \<open>IndexOutOfRange\<close>, and a handler that blocks for ever on a
  channel ends in \<open>BlocksForever\<close>: it never returns.

  Each definition below is one handler run from its first to its last line with nothing
  else running in between. The program itself runs the handlers of different
  connections and its timers in parallel; the mutexes, the log output, the keep-alive
  manager and the pauses of \<^verbatim>\<open>time.Sleep\<close> are left out. The clock is
  read once per handler call (the argument \<open>now\<close>). The key-value store answers every
  \<^verbatim>\<open>Put\<close>; a \<^verbatim>\<open>Get\<close> of a list that is not stored leaves the slice empty, a
  \<^verbatim>\<open>Get\<close> of a user that is not stored fails.
\<close>

datatype error = ErrWriteNotConnected | NilPointer | IndexOutOfRange | BlocksForever

record CallerInfo =
  AddrPort :: string
  CallerName :: string
  CallTime :: int64
  CallerID :: string
  Msg :: string

record DbUser =
  StoreMissedCalls :: bool
  Int2 :: int64
  DbConnectedToPeerSecs :: int64

record WsClient =
  hub :: "nat option"
  isOnline :: bool
  isConnectedToPeer :: bool
  isMediaConnectedToPeer :: bool
  pickupSent :: bool
  calleeInitReceived :: bool
  callerOfferForwarded :: bool
  RemoteAddr :: string
  RemoteAddrNoPort :: string
  userAgent :: string
  calleeID :: string
  globalCalleeID :: string
  connType :: string
  callerID :: string
  callerName :: string
  clientVersion :: string
  callerTextMsg :: string
  pingSent :: "64 word"
  pongReceived :: "64 word"
  pongSent :: "64 word"
  pingReceived :: "64 word"
  authenticationShown :: bool
  isCallee :: bool
  clearOnCloseDone :: bool

text \<open>
  Modelled from the spec: the declaration of \<^verbatim>\<open>Hub\<close> is not among the sources. The
  fields are those the handler reads and writes; \<open>deadline\<close> stands for the hub's
  deadline timer (seconds armed, \<open>0\<close> when disarmed).
\<close>

record Hub =
  CalleeClient :: "nat option"
  CallerClient :: "nat option"
  IsCalleeHidden :: bool
  IsUnHiddenForCallerAddr :: string
  WsClientID :: "64 word"
  ServiceStartTime :: int64
  ConnectedToPeerSecs :: int64
  CallDurationSecs :: int64
  CalleeLogin :: bool
  maxRingSecs :: int64
  maxTalkSecsIfNoP2p :: int64
  lastCallStartTime :: int64
  LocalP2p :: bool
  RemoteP2p :: bool
  registrationStartTime :: int64
  deadline :: int64

text \<open>The pending-attach record that \<^verbatim>\<open>serve\<close> finds under the ticket.\<close>

record wsClientDataType =
  wsd_hub :: "nat option"
  wsd_calleeID :: string
  wsd_globalID :: string
  wsd_clientVersion :: string
  wsd_dbUser :: DbUser
  wsd_StartTime :: int64

text \<open>Configuration globals the handler reads.\<close>

record Config =
  calleeClientVersion :: string
  clientUpdateBelowVersion :: string
  disconCalleeOnPeerConnected :: bool
  disconCallerOnPeerConnected :: bool
  maxClientRequestsPer30min :: int

text \<open>
  What leaves the handler: frames written to a client's socket, a socket being closed,
  and calls into collaborators whose code is elsewhere (the hub registry, the rate
  limiter, the HTTP front-end), kept by name and arguments. \<open>JsonFrame c p xs\<close> is the
  TEXT frame \<open>p\<close> followed by the JSON encoding of \<open>xs\<close>.
\<close>

datatype event =
    TextFrame nat string
  | CloseFrame nat
  | JsonFrame nat string "CallerInfo list"
  | PushLists nat "CallerInfo list" "CallerInfo list"
  | External string "string list"

record sys =
  clients :: "nat \<Rightarrow> WsClient"
  hubs :: "nat \<Rightarrow> Hub"
  nextClient :: nat
  waitingCallerDb :: "string \<Rightarrow> CallerInfo list"
  missedCallsDb :: "string \<Rightarrow> CallerInfo list"
  userDb :: "string \<rightharpoonup> DbUser"
  waitingCallerChanMap :: "string set"
  out :: "event list"
  config :: Config

definition updClient :: "nat \<Rightarrow> (WsClient \<Rightarrow> WsClient) \<Rightarrow> sys \<Rightarrow> sys" where
  "updClient c f s = s\<lparr>clients := (clients s)(c := f (clients s c))\<rparr>"

definition updHub :: "nat \<Rightarrow> (Hub \<Rightarrow> Hub) \<Rightarrow> sys \<Rightarrow> sys" where
  "updHub h f s = s\<lparr>hubs := (hubs s)(h := f (hubs s h))\<rparr>"

definition emit :: "event \<Rightarrow> sys \<Rightarrow> sys" where
  "emit e s = s\<lparr>out := out s @ [e]\<rparr>"

section \<open>Write and Close\<close>

definition Write :: "nat \<Rightarrow> string \<Rightarrow> sys \<Rightarrow> error option \<times> sys" where
  "Write c b s =
     (if \<not> isOnline (clients s c) then (Some ErrWriteNotConnected, s)
      else (None, emit (TextFrame c b) s))"

definition Close :: "nat \<Rightarrow> string \<Rightarrow> sys \<Rightarrow> sys" where
  "Close c reason s = (if isOnline (clients s c) then emit (CloseFrame c) s else s)"

text \<open>A \<^verbatim>\<open>Write\<close> of a prefix and a JSON-encoded list.\<close>

definition WriteJson :: "nat \<Rightarrow> string \<Rightarrow> CallerInfo list \<Rightarrow> sys \<Rightarrow> error option \<times> sys" where
  "WriteJson c p xs s =
     (if \<not> isOnline (clients s c) then (Some ErrWriteNotConnected, s)
      else (None, emit (JsonFrame c p xs) s))"

section \<open>Collaborators of the handler whose code is elsewhere\<close>

text \<open>
  Modelled from the spec: \<^verbatim>\<open>setDeadline\<close> is not among the sources. With \<open>secs = 0\<close> it
  disarms the hub's deadline, with \<open>secs > 0\<close> it arms a timer of \<open>secs\<close> seconds.
\<close>

definition setDeadline :: "nat \<Rightarrow> int64 \<Rightarrow> string \<Rightarrow> sys \<Rightarrow> sys" where
  "setDeadline h secs cause s = updHub h (\<lambda>H. H\<lparr>deadline := secs\<rparr>) s"

text \<open>
  Modelled from the spec: \<^verbatim>\<open>processTimeValues\<close> is not among the sources. It computes
  the call duration from \<open>lastCallStartTime\<close> and adds it to the connected-to-peer total.
\<close>

definition processTimeValues :: "int64 \<Rightarrow> nat \<Rightarrow> string \<Rightarrow> sys \<Rightarrow> sys" where
  "processTimeValues now h comment s =
     updHub h (\<lambda>H. H\<lparr>CallDurationSecs := now - lastCallStartTime H,
                      ConnectedToPeerSecs := ConnectedToPeerSecs H + (now - lastCallStartTime H)\<rparr>) s"

text \<open>
  Modelled from the spec: \<^verbatim>\<open>addMissedCall\<close> is not among the sources. It appends the
  record to the callee's missed-calls list and persists the list.
\<close>

definition addMissedCall :: "string \<Rightarrow> CallerInfo \<Rightarrow> string \<Rightarrow> sys \<Rightarrow> sys" where
  "addMissedCall urlID caller cause s =
     s\<lparr>missedCallsDb := (missedCallsDb s)(urlID := missedCallsDb s urlID @ [caller])\<rparr>"

text \<open>
  Modelled from the spec: \<^verbatim>\<open>doBroadcast\<close> is not among the sources. It writes the
  message to both endpoints of the hub.
\<close>

definition doBroadcast :: "nat \<Rightarrow> string \<Rightarrow> sys \<Rightarrow> sys" where
  "doBroadcast h message s =
     (let s1 = (case CalleeClient (hubs s h) of None \<Rightarrow> s | Some e \<Rightarrow> snd (Write e message s))
      in case CallerClient (hubs s1 h) of None \<Rightarrow> s1 | Some k \<Rightarrow> snd (Write k message s1))"

text \<open>
  \<^verbatim>\<open>StoreCallerIpInHubMap\<close> belongs to the hub registry; its error is only logged.
\<close>

definition StoreCallerIpInHubMap :: "string \<Rightarrow> string \<Rightarrow> sys \<Rightarrow> sys" where
  "StoreCallerIpInHubMap globalID addr s = emit (External ''StoreCallerIpInHubMap'' [globalID, addr]) s"

definition userKey :: "nat \<Rightarrow> nat \<Rightarrow> sys \<Rightarrow> string" where
  "userKey c h s = calleeID (clients s c) @ ''_'' @ FormatInt (registrationStartTime (hubs s h))"

section \<open>peerConHasEnded\<close>

text \<open>
  Lines 1104-1109: the deadline is disarmed and, when a call was picked up, the time
  values are processed and \<open>lastCallStartTime\<close> is reset. This runs before the role of the
  endpoint is looked at.
\<close>

definition endCallTimes :: "int64 \<Rightarrow> nat \<Rightarrow> string \<Rightarrow> sys \<Rightarrow> sys" where
  "endCallTimes now h cause s =
     (let s1 = setDeadline h 0 cause s
      in if 0 <s lastCallStartTime (hubs s1 h)
         then updHub h (\<lambda>H. H\<lparr>lastCallStartTime := 0\<rparr>)
                (processTimeValues now h ''peerConHasEnded'' s1)
         else s1)"

text \<open>Lines 1139-1148: both flags are cleared on the endpoint and on the hub's caller.\<close>

definition clearPeerFlags :: "nat \<Rightarrow> nat \<Rightarrow> sys \<Rightarrow> sys" where
  "clearPeerFlags c h s =
     (let s1 = updClient c (\<lambda>C. C\<lparr>isConnectedToPeer := False,
                                   isMediaConnectedToPeer := False\<rparr>) s
      in case CallerClient (hubs s1 h) of
           None \<Rightarrow> s1
         | Some k \<Rightarrow> updClient k (\<lambda>C. C\<lparr>isConnectedToPeer := False,
                                          isMediaConnectedToPeer := False\<rparr>) s1)"

text \<open>Lines 1183-1202: the missed-call entry.\<close>

definition storeMissedCall :: "int64 \<Rightarrow> nat \<Rightarrow> nat \<Rightarrow> string \<Rightarrow> sys \<Rightarrow> sys" where
  "storeMissedCall now c h cause s =
     (let callerRemoteAddr = (case CallerClient (hubs s h) of
                                None \<Rightarrow> [] | Some k \<Rightarrow> RemoteAddrNoPort (clients s k));
          callerID' = (case CallerClient (hubs s h) of
                         None \<Rightarrow> [] | Some k \<Rightarrow> callerID (clients s k));
          callerName' = (case CallerClient (hubs s h) of
                           None \<Rightarrow> [] | Some k \<Rightarrow> callerName (clients s k))
      in if CallDurationSecs (hubs s h) \<le>s 0
         then (case userDb s (userKey c h s) of
                 None \<Rightarrow> s
               | Some dbUser \<Rightarrow>
                   if StoreMissedCalls dbUser
                   then addMissedCall (calleeID (clients s c))
                          \<lparr>AddrPort = callerRemoteAddr, CallerName = callerName',
                           CallTime = now, CallerID = callerID',
                           Msg = callerTextMsg (clients s c)\<rparr> cause s
                   else s)
         else s)"

definition peerConHasEnded :: "int64 \<Rightarrow> nat option \<Rightarrow> string \<Rightarrow> sys \<Rightarrow> sys" where
  "peerConHasEnded now co cause s =
     (case co of
        None \<Rightarrow> s
      | Some c \<Rightarrow>
         (case hub (clients s c) of
            None \<Rightarrow> s
          | Some h \<Rightarrow>
             (let s2 = endCallTimes now h cause s
              in if \<not> isCallee (clients s2 c) then s2
                 else (let s3 = updClient c (\<lambda>C. C\<lparr>calleeInitReceived := False\<rparr>) s2
                       in if isConnectedToPeer (clients s3 c)
                          then (let s5 = clearPeerFlags c h s3;
                                    s6 = (case CallerClient (hubs s5 h) of
                                            None \<Rightarrow> s5
                                          | Some k \<Rightarrow>
                                              emit (External ''delete recentTurnCalleeIps''
                                                      [RemoteAddrNoPort (clients s5 k)]) s5);
                                    s7 = storeMissedCall now c h cause s6;
                                    s8 = StoreCallerIpInHubMap (globalCalleeID (clients s7 c)) [] s7
                                in updHub h (\<lambda>H. H\<lparr>CallerClient := None\<rparr>) s8)
                          else s3))))"

section \<open>The callee's init: pruning the waiting callers\<close>

text \<open>Checked slice operations: Go panics where these return \<open>None\<close>.\<close>

definition index :: "'a list \<Rightarrow> nat \<Rightarrow> 'a option" where
  "index xs i = (if i < length xs then Some (xs ! i) else None)"

definition sliceTo :: "'a list \<Rightarrow> nat \<Rightarrow> 'a list option" where
  "sliceTo xs i = (if i \<le> length xs then Some (take i xs) else None)"

definition sliceFrom :: "'a list \<Rightarrow> nat \<Rightarrow> 'a list option" where
  "sliceFrom xs i = (if i \<le> length xs then Some (drop i xs) else None)"

text \<open>An entry is outdated when \<^verbatim>\<open>time.Now().Unix() - CallTime > 10*60\<close>.\<close>

definition outdated :: "int64 \<Rightarrow> CallerInfo \<Rightarrow> bool" where
  "outdated now e = (600 <s now - CallTime e)"

text \<open>
  Lines 465-477. \<^verbatim>\<open>for idx := range waitingCallerSlice\<close> fixes the number \<open>n\<close> of
  rounds when the loop starts; the body reads the slice as it is now. \<open>idx\<close> advances
  after every round, also after a removal.
\<close>

function pruneLoop ::
  "int64 \<Rightarrow> nat \<Rightarrow> nat \<Rightarrow> CallerInfo list \<Rightarrow> nat \<Rightarrow> error + (CallerInfo list \<times> nat)" where
  "pruneLoop now n idx waitingCallerSlice countOutdated =
     (if n \<le> idx then Inr (waitingCallerSlice, countOutdated)
      else if length waitingCallerSlice \<le> idx then Inr (waitingCallerSlice, countOutdated)
      else (case index waitingCallerSlice idx of
              None \<Rightarrow> Inl IndexOutOfRange
            | Some e \<Rightarrow>
                if outdated now e
                then (case (sliceTo waitingCallerSlice idx, sliceFrom waitingCallerSlice (idx + 1)) of
                        (Some a, Some b) \<Rightarrow> pruneLoop now n (idx + 1) (a @ b) (countOutdated + 1)
                      | _ \<Rightarrow> Inl IndexOutOfRange)
                else pruneLoop now n (idx + 1) waitingCallerSlice countOutdated))"
  by pat_completeness auto
termination
  by (relation "measure (\<lambda>(now, n, idx, xs, k). n - idx)") auto

declare pruneLoop.simps [simp del]

definition pruneWaiting :: "int64 \<Rightarrow> CallerInfo list \<Rightarrow> error + (CallerInfo list \<times> nat)" where
  "pruneWaiting now waitingCallerSlice =
     pruneLoop now (length waitingCallerSlice) 0 waitingCallerSlice 0"

definition updateMsg :: string where
  \<open>updateMsg = ''This version of WebCall for Android has a technical problem. '' @
     ''Support will be phased out soon. '' @
     ''Please upgrade to <a href="https://timur.mobi/webcall/update/">v1.0 or newer.</a>''\<close>

text \<open>
  Lines 459-499. \<^verbatim>\<open>waitingCallerToCallee\<close> lives with the HTTP front-end; the lists it
  is given are kept as an event.
\<close>

definition sendWaitingAndMissed :: "int64 \<Rightarrow> nat \<Rightarrow> sys \<Rightarrow> error + sys" where
  "sendWaitingAndMissed now c s =
     (case pruneWaiting now (waitingCallerDb s (calleeID (clients s c))) of
        Inl e \<Rightarrow> Inl e
      | Inr (waitingCallerSlice, countOutdated) \<Rightarrow>
          (let s1 = (if 0 < countOutdated
                     then s\<lparr>waitingCallerDb :=
                              (waitingCallerDb s)(calleeID (clients s c) := waitingCallerSlice)\<rparr>
                     else s);
               missedCallsSlice = missedCallsDb s1 (calleeID (clients s1 c))
           in Inr (if 0 < length waitingCallerSlice \<or> 0 < length missedCallsSlice
                   then emit (PushLists c waitingCallerSlice missedCallsSlice) s1
                   else s1)))"

definition cmdInit :: "int64 \<Rightarrow> nat \<Rightarrow> sys \<Rightarrow> error + sys" where
  "cmdInit now c s =
     (if \<not> isCallee (clients s c) then Inr (snd (Write c ''cancel|busy'' s))
      else if calleeInitReceived (clients s c) then Inr s
      else (case hub (clients s c) of
              None \<Rightarrow> Inr s
            | Some h \<Rightarrow>
               (let s1 = updHub h (\<lambda>H. H\<lparr>CallerClient := None\<rparr>) s;
                    s2 = updClient c (\<lambda>C. C\<lparr>calleeInitReceived := True\<rparr>) s1;
                    s3 = updHub h (\<lambda>H. H\<lparr>CalleeLogin := True\<rparr>) s2;
                    s4 = updClient c (\<lambda>C. C\<lparr>pickupSent := False, clearOnCloseDone := False,
                                                callerTextMsg := []\<rparr>) s3;
                    w = Write c (''sessionId|'' @ calleeClientVersion (config s4)) s4;
                    s5 = snd w
                in if fst w \<noteq> None then Inr s5
                   else if \<not> HasPrefix (calleeID (clients s5 c)) ''answie''
                           \<and> \<not> HasPrefix (calleeID (clients s5 c)) ''talkback''
                   then (if clientUpdateBelowVersion (config s5) \<noteq> []
                            \<and> strLess (clientVersion (clients s5 c))
                                       (clientUpdateBelowVersion (config s5))
                         then Inr (snd (Write c (''status|'' @ updateMsg) s5))
                         else sendWaitingAndMissed now c s5)
                   else Inr s5)))"

section \<open>The other commands of receiveProcess\<close>

definition cmdMsg :: "nat \<Rightarrow> string \<Rightarrow> sys \<Rightarrow> sys" where
  "cmdMsg c payload s =
     (let cleanMsg = TrimSpace (Replace (Replace payload (CHR 0x0A) (CHR '' '')) (CHR 0x0D) (CHR '' ''))
      in case hub (clients s c) of
           None \<Rightarrow> s
         | Some h \<Rightarrow>
            (case CalleeClient (hubs s h) of
               None \<Rightarrow> s
             | Some e \<Rightarrow> updClient e (\<lambda>C. C\<lparr>callerTextMsg := cleanMsg\<rparr>) s))"

text \<open>\<^verbatim>\<open>missedCall\<close> lives with the HTTP front-end; the call is kept as an event.\<close>

definition cmdMissedcall :: "nat \<Rightarrow> string \<Rightarrow> sys \<Rightarrow> sys" where
  "cmdMissedcall c payload s = emit (External ''missedCall'' [payload, RemoteAddr (clients s c)]) s"

text \<open>
  \<^verbatim>\<open>callerOffer\<close>, lines 545-617, from the end: arming the ring deadline and storing
  the caller's address (601-616), exchanging the user agents (590-599), sending the
  caller's id and name (581-588), and the command itself. A failed \<^verbatim>\<open>Write\<close> ends
  the command.
\<close>

definition offerRing :: "nat \<Rightarrow> nat \<Rightarrow> sys \<Rightarrow> sys" where
  "offerRing c h s =
     (let s1 = (if 0 <s maxRingSecs (hubs s h)
                then setDeadline h (maxRingSecs (hubs s h)) ''serveWs ringsecs'' s
                else s)
      in StoreCallerIpInHubMap (globalCalleeID (clients s1 c)) (RemoteAddr (clients s1 c)) s1)"

definition offerUa :: "nat \<Rightarrow> nat \<Rightarrow> nat \<Rightarrow> nat \<Rightarrow> sys \<Rightarrow> sys" where
  "offerUa c h e k s =
     (let w4 = Write k (''ua|'' @ userAgent (clients s e)) s
      in if fst w4 \<noteq> None then snd w4
         else (let w5 = Write e (''ua|'' @ userAgent (clients (snd w4) k)) (snd w4)
               in if fst w5 \<noteq> None then snd w5 else offerRing c h (snd w5)))"

definition offerInfo :: "nat \<Rightarrow> nat \<Rightarrow> nat \<Rightarrow> nat \<Rightarrow> sys \<Rightarrow> sys" where
  "offerInfo c h e k s =
     (if callerID (clients s k) \<noteq> [] \<or> callerName (clients s k) \<noteq> []
      then (let w3 = Write e (''callerInfo|'' @ callerID (clients s k) @ '':''
                              @ callerName (clients s k)) s
            in if fst w3 \<noteq> None then snd w3 else offerUa c h e k (snd w3))
      else offerUa c h e k s)"

definition cmdCallerOffer :: "nat \<Rightarrow> string \<Rightarrow> sys \<Rightarrow> error + sys" where
  "cmdCallerOffer c message s =
     (if callerOfferForwarded (clients s c) then Inr s
      else (case hub (clients s c) of
              None \<Rightarrow> Inl NilPointer
            | Some h \<Rightarrow>
               (case CalleeClient (hubs s h) of
                  None \<Rightarrow> Inr s
                | Some e \<Rightarrow>
                   (case CallerClient (hubs s h) of
                      None \<Rightarrow> Inr s
                    | Some k \<Rightarrow>
                       (let w1 = Write e message s
                        in if fst w1 \<noteq> None then Inr (snd w1)
                           else Inr (offerInfo c h e k
                                       (updClient c (\<lambda>C. C\<lparr>callerOfferForwarded := True\<rparr>)
                                          (snd w1))))))))"

definition cmdCancel :: "int64 \<Rightarrow> nat \<Rightarrow> string \<Rightarrow> sys \<Rightarrow> sys" where
  "cmdCancel now c payload s =
     (case hub (clients s c) of
        None \<Rightarrow> s
      | Some h \<Rightarrow>
         (case CalleeClient (hubs s h) of
            None \<Rightarrow> Close c ''callee already closed'' s
          | Some e \<Rightarrow>
             if isConnectedToPeer (clients s e)
             then peerConHasEnded now (Some e) ''cancel'' s
             else s))"

text \<open>
  \<^verbatim>\<open>calleeHidden\<close> and \<^verbatim>\<open>dialsoundsmuted\<close> keep one bit of \<open>Int2\<close> in the user
  record: \<open>bitv\<close> is \<open>1\<close> or \<open>4\<close>.
\<close>

definition storeUserBit :: "nat \<Rightarrow> nat \<Rightarrow> int64 \<Rightarrow> bool \<Rightarrow> sys \<Rightarrow> sys" where
  "storeUserBit c h bitv on s =
     (case userDb s (userKey c h s) of
        None \<Rightarrow> s
      | Some dbUser \<Rightarrow>
          s\<lparr>userDb := (userDb s)(userKey c h s \<mapsto>
               dbUser\<lparr>Int2 := (if on then Int2 dbUser OR bitv else Int2 dbUser AND NOT bitv)\<rparr>)\<rparr>)"

definition cmdCalleeHidden :: "nat \<Rightarrow> string \<Rightarrow> sys \<Rightarrow> error + sys" where
  "cmdCalleeHidden c payload s =
     (case hub (clients s c) of
        None \<Rightarrow> Inl NilPointer
      | Some h \<Rightarrow>
         (let s1 = updHub h (\<lambda>H. H\<lparr>IsCalleeHidden := (payload = ''true''),
                                   IsUnHiddenForCallerAddr := []\<rparr>) s;
              calleeHidden = IsCalleeHidden (hubs s1 h);
              s2 = emit (External ''SetCalleeHiddenState''
                           [calleeID (clients s1 c), if calleeHidden then ''true'' else ''false'']) s1
          in Inr (storeUserBit c h 1 calleeHidden s2)))"

definition cmdDialsoundsmuted :: "nat \<Rightarrow> string \<Rightarrow> sys \<Rightarrow> error + sys" where
  "cmdDialsoundsmuted c payload s =
     (case hub (clients s c) of
        None \<Rightarrow> Inl NilPointer
      | Some h \<Rightarrow> Inr (storeUserBit c h 4 (payload = ''true'') s))"

text \<open>
  Line 755 sends on the channel that \<^verbatim>\<open>waitingCallerChanMap\<close> holds for the payload.
  Modelled from the spec: the map is filled by the HTTP front-end, which is not among
  the sources; a key is in the map while the front-end is blocked receiving on its
  channel, so the send releases it. For a key that is not in the map the channel is
  nil, and a send on a nil channel blocks for ever.
\<close>

definition cmdPickupWaitingCaller :: "nat \<Rightarrow> string \<Rightarrow> sys \<Rightarrow> error + sys" where
  "cmdPickupWaitingCaller c payload s =
     (if payload \<in> waitingCallerChanMap s
      then Inr (emit (External ''waitingCallerChanMap'' [payload]) s)
      else Inl BlocksForever)"

text \<open>
  Lines 785-812: the first entry whose id is the payload is removed and the loop
  stops; \<open>None\<close> when no entry matches.
\<close>

fun deleteMissed :: "string \<Rightarrow> CallerInfo list \<Rightarrow> CallerInfo list option" where
  "deleteMissed key [] = None"
| "deleteMissed key (x # xs) =
     (if AddrPort x @ ''_'' @ FormatInt (CallTime x) = key then Some xs
      else map_option (Cons x) (deleteMissed key xs))"

definition cmdDeleteMissedCall :: "nat \<Rightarrow> string \<Rightarrow> sys \<Rightarrow> error + sys" where
  "cmdDeleteMissedCall c payload s =
     (case hub (clients s c) of
        None \<Rightarrow> Inl NilPointer
      | Some h \<Rightarrow>
         (let missedCallsSlice =
                (case userDb s (userKey c h s) of
                   None \<Rightarrow> []
                 | Some dbUser \<Rightarrow>
                     if StoreMissedCalls dbUser then missedCallsDb s (calleeID (clients s c)) else [])
          in case deleteMissed payload missedCallsSlice of
               None \<Rightarrow> Inr s
             | Some rest \<Rightarrow>
                (let s1 = s\<lparr>missedCallsDb := (missedCallsDb s)(calleeID (clients s c) := rest)\<rparr>
                 in case CalleeClient (hubs s1 h) of
                      None \<Rightarrow> Inr s1
                    | Some e \<Rightarrow> Inr (snd (WriteJson e ''missedCalls|'' rest s1)))))"

definition cmdPickup :: "int64 \<Rightarrow> nat \<Rightarrow> string \<Rightarrow> sys \<Rightarrow> error + sys" where
  "cmdPickup now c message s =
     (if \<not> isConnectedToPeer (clients s c) then Inr s
      else if pickupSent (clients s c) then Inr s
      else (case hub (clients s c) of
              None \<Rightarrow> Inl NilPointer
            | Some h \<Rightarrow>
               (let s1 = updHub h (\<lambda>H. H\<lparr>lastCallStartTime := now\<rparr>) s;
                    s2 = (case CallerClient (hubs s1 h) of
                            None \<Rightarrow> s1
                          | Some k \<Rightarrow>
                              updClient c (\<lambda>C. C\<lparr>pickupSent := True\<rparr>) (snd (Write k message s1)))
                in Inr (setDeadline h 0 ''pickup'' s2))))"

section \<open>The peer-connect report\<close>


definition isPeerConstate :: "string \<Rightarrow> bool" where
  "isPeerConstate constate =
     (constate = ''Incoming'' \<or> constate = ''Connected'' \<or> constate = ''ConForce'')"

text \<open>Lines 932-950: the two modes of the report.\<close>

definition setP2pFlags :: "nat \<Rightarrow> string list \<Rightarrow> sys \<Rightarrow> sys" where
  "setP2pFlags h tok s =
     (let s1 = updHub h (\<lambda>H. H\<lparr>LocalP2p := False, RemoteP2p := False\<rparr>) s
      in if 3 \<le> length tok
         then (let tok2 = Split (TrimSpace (tok ! 2)) (CHR ''/'')
               in if 2 \<le> length tok2
                  then updHub h (\<lambda>H. H\<lparr>LocalP2p := (tok2 ! 0 = ''p2p''),
                                        RemoteP2p := (tok2 ! 1 = ''p2p'')\<rparr>) s1
                  else s1)
         else s1)"

text \<open>Lines 953-984: the callee reports the connection.\<close>

definition calleeConnected :: "nat \<Rightarrow> nat \<Rightarrow> nat \<Rightarrow> sys \<Rightarrow> sys" where
  "calleeConnected c h k s =
     (if \<not> isMediaConnectedToPeer (clients s c)
      then (let s1 = updClient c (\<lambda>C. C\<lparr>isMediaConnectedToPeer := True\<rparr>) s;
                s2 = updClient k (\<lambda>C. C\<lparr>isMediaConnectedToPeer := True\<rparr>) s1;
                s3 = (if 0 < maxClientRequestsPer30min (config s2)
                      then emit (External ''delete clientRequestsMap''
                                   [RemoteAddrNoPort (clients s2 c), RemoteAddrNoPort (clients s2 k)]) s2
                      else s2)
            in if 0 <s maxTalkSecsIfNoP2p (hubs s3 h)
                  \<and> (\<not> LocalP2p (hubs s3 h) \<or> \<not> RemoteP2p (hubs s3 h))
               then doBroadcast h (''sessionDuration|'' @ FormatInt (maxTalkSecsIfNoP2p (hubs s3 h)))
                      (setDeadline h (maxTalkSecsIfNoP2p (hubs s3 h)) ''peer con'' s3)
               else s3)
      else s)"

text \<open>Lines 986-1014: the caller reports the connection.\<close>

definition callerConnected :: "string \<Rightarrow> nat \<Rightarrow> nat \<Rightarrow> sys \<Rightarrow> sys" where
  "callerConnected constate e k s =
     (if constate = ''ConForce'' then snd (Write e ''callerConnect|'' s)
      else if constate = ''Connected''
      then (let s1 = (if disconCalleeOnPeerConnected (config s)
                      then Close e ''disconCalleeOnPeerConnected'' s else s)
            in if disconCallerOnPeerConnected (config s)
               then Close k ''disconCallerOnPeerConnected'' s1 else s1)
      else s)"

text \<open>
  Lines 866-1020. The log line of the report reads \<^verbatim>\<open>tok[2]\<close> whatever the number of
  tokens, before any flag is touched.
\<close>

definition cmdLog :: "nat \<Rightarrow> string \<Rightarrow> sys \<Rightarrow> error + sys" where
  "cmdLog c payload s =
     (case hub (clients s c) of
        None \<Rightarrow> Inr s
      | Some h \<Rightarrow>
         (case CallerClient (hubs s h) of
            None \<Rightarrow> Inr (StoreCallerIpInHubMap (globalCalleeID (clients s c)) [] s)
          | Some k \<Rightarrow>
             (case CalleeClient (hubs s h) of
                None \<Rightarrow> Inr s
              | Some e \<Rightarrow>
                 (let tok = Split payload (CHR '' '');
                      constate = (if 2 \<le> length tok then TrimSpace (tok ! 1) else [])
                  in case index tok 2 of
                       None \<Rightarrow> Inl IndexOutOfRange
                     | Some t2 \<Rightarrow>
                        if 2 \<le> length tok \<and> isPeerConstate constate
                        then (let s1 = updClient c (\<lambda>C. C\<lparr>isConnectedToPeer := True\<rparr>) s;
                                  s2 = (if \<not> isCallee (clients s1 c)
                                        then updClient e (\<lambda>C. C\<lparr>isConnectedToPeer := True\<rparr>) s1
                                        else s1);
                                  s3 = setP2pFlags h tok s2
                              in if constate = ''Connected'' \<or> constate = ''ConForce''
                                 then (if isCallee (clients s3 c)
                                       then Inr (calleeConnected c h k s3)
                                       else Inr (callerConnected constate e k s3))
                                 else Inr s3)
                        else Inr s))))"

text \<open>Lines 1046-1070: any other command with a payload goes to the other side.\<close>

definition forward :: "nat \<Rightarrow> string \<Rightarrow> string \<Rightarrow> sys \<Rightarrow> sys" where
  "forward c payload message s =
     (if 0 < length payload
      then (case hub (clients s c) of
              None \<Rightarrow> s
            | Some h \<Rightarrow>
               if isCallee (clients s c)
               then (case CallerClient (hubs s h) of
                       None \<Rightarrow> s | Some k \<Rightarrow> snd (Write k message s))
               else (case CalleeClient (hubs s h) of
                       None \<Rightarrow> s | Some e \<Rightarrow> snd (Write e message s)))
      else s)"

section \<open>receiveProcess\<close>

definition dispatch :: "int64 \<Rightarrow> nat \<Rightarrow> string \<Rightarrow> string \<Rightarrow> string \<Rightarrow> sys \<Rightarrow> error + sys" where
  "dispatch now c cmd payload message s =
     (if cmd = ''init'' then cmdInit now c s
      else if cmd = ''dummy'' then Inr s
      else if cmd = ''msg'' then Inr (cmdMsg c payload s)
      else if cmd = ''missedcall'' then Inr (cmdMissedcall c payload s)
      else if cmd = ''callerOffer'' then cmdCallerOffer c message s
      else if cmd = ''rtcConnect'' then Inr s
      else if cmd = ''cancel'' then Inr (cmdCancel now c payload s)
      else if cmd = ''calleeHidden'' then cmdCalleeHidden c payload s
      else if cmd = ''dialsoundsmuted'' then cmdDialsoundsmuted c payload s
      else if cmd = ''pickupWaitingCaller'' then cmdPickupWaitingCaller c payload s
      else if cmd = ''deleteMissedCall'' then cmdDeleteMissedCall c payload s
      else if cmd = ''pickup'' then cmdPickup now c message s
      else if cmd = ''heartbeat'' then Inr s
      else if cmd = ''check'' then Inr (snd (Write c (''confirm|'' @ payload) s))
      else if cmd = ''log'' then cmdLog c payload s
      else Inr (forward c payload message s))"

definition receiveProcess :: "int64 \<Rightarrow> nat \<Rightarrow> string \<Rightarrow> sys \<Rightarrow> error + sys" where
  "receiveProcess now c message s =
     (case splitFrame message of
        None \<Rightarrow> Inr s
      | Some (cmd, payload) \<Rightarrow> dispatch now c cmd payload message s)"

section \<open>Attaching and closing a connection\<close>

definition noPeerConMsg :: string where
  \<open>noPeerConMsg = ''Unable to establish a direct P2P connection. '' @
     ''This is likely a WebRTC related issue with your browser/WebView, '' @
     ''or the browser/WebView on the other side. '' @
     ''It could also be a firewall issue. '' @
     ''On Android, run <a href="https://timur.mobi/webcall/android/#webview">WebRTC-Check</a> '' @
     ''to test your System WebView.''\<close>

text \<open>
  \<^verbatim>\<open>serve\<close> from the point where the ticket was found and the connection upgraded
  (lines 170-369): a new client object is allocated and takes the callee slot of the
  hub when that is free, else the caller slot when that is free.
\<close>

definition newClient ::
  "wsClientDataType \<Rightarrow> string \<Rightarrow> string \<Rightarrow> string \<Rightarrow> string \<Rightarrow> bool \<Rightarrow> WsClient" where
  "newClient d remoteAddr callerID' callerName' ua tls =
     \<lparr>hub = wsd_hub d, isOnline = True, isConnectedToPeer = False,
      isMediaConnectedToPeer = False, pickupSent = False, calleeInitReceived = False,
      callerOfferForwarded = False, RemoteAddr = remoteAddr,
      RemoteAddrNoPort = (let idxPort = Index remoteAddr (CHR '':'')
                          in if 0 \<le> idxPort then take (nat idxPort) remoteAddr else remoteAddr),
      userAgent = ua, calleeID = wsd_calleeID d, globalCalleeID = wsd_globalID d,
      connType = (if tls then ''serveWss'' else ''serveWs''),
      callerID = callerID', callerName = callerName',
      clientVersion = wsd_clientVersion d, callerTextMsg = [],
      pingSent = 0, pongReceived = 0, pongSent = 0, pingReceived = 0,
      authenticationShown = False, isCallee = False, clearOnCloseDone = False\<rparr>"

definition serve ::
  "int64 \<Rightarrow> 64 word \<Rightarrow> wsClientDataType \<Rightarrow> string \<Rightarrow> string \<Rightarrow> string \<Rightarrow> string \<Rightarrow> bool
     \<Rightarrow> sys \<Rightarrow> error + sys" where
  "serve now wsClientID64 d remoteAddr callerID' callerName' ua tls s =
     (case wsd_hub d of
        None \<Rightarrow> Inl NilPointer
      | Some h \<Rightarrow>
         (let c = nextClient s;
              s1 = s\<lparr>clients := (clients s)(c := newClient d remoteAddr callerID' callerName' ua tls),
                     nextClient := Suc c\<rparr>
          in if CalleeClient (hubs s1 h) = None
             then (let s2 = updClient c (\<lambda>C. C\<lparr>isCallee := True, calleeInitReceived := False\<rparr>) s1;
                       s3 = updHub h (\<lambda>H. H\<lparr>IsCalleeHidden := (Int2 (wsd_dbUser d) AND 1 \<noteq> 0),
                                                IsUnHiddenForCallerAddr := [],
                                                WsClientID := wsClientID64,
                                                CalleeClient := Some c,
                                                CallerClient := None,
                                                ServiceStartTime := now,
                                                ConnectedToPeerSecs := 0\<rparr>) s2;
                       s4 = (if \<not> HasPrefix (calleeID (clients s3 c)) ''random''
                             then updHub h (\<lambda>H. H\<lparr>ServiceStartTime := wsd_StartTime d,
                                                     ConnectedToPeerSecs :=
                                                       DbConnectedToPeerSecs (wsd_dbUser d)\<rparr>) s3
                             else s3)
                   in Inr (updHub h (\<lambda>H. H\<lparr>CallDurationSecs := 0\<rparr>) s4))
             else if CallerClient (hubs s1 h) = None
             then Inr (updHub h (\<lambda>H. H\<lparr>CallDurationSecs := 0, CallerClient := Some c\<rparr>)
                         (updClient c (\<lambda>C. C\<lparr>isCallee := False, callerOfferForwarded := False\<rparr>) s1))
             else Inr s1))"

text \<open>
  Lines 317-362: the task started when a caller is admitted, as it runs eleven seconds
  later for the client \<open>c\<close> and its hub.
\<close>

definition noPeerConWatchdog :: "nat \<Rightarrow> sys \<Rightarrow> error + sys" where
  "noPeerConWatchdog c s =
     (case hub (clients s c) of
        None \<Rightarrow> Inl NilPointer
      | Some h \<Rightarrow>
         (case CalleeClient (hubs s h) of
            None \<Rightarrow> Inr s
          | Some e \<Rightarrow>
             if \<not> isConnectedToPeer (clients s e)
             then (case CallerClient (hubs s h) of
                     None \<Rightarrow> Inr s
                   | Some k \<Rightarrow>
                      if callerOfferForwarded (clients s k)
                      then (let s1 = snd (Write k (''status|'' @ noPeerConMsg) s);
                                s2 = snd (Write e (''status|'' @ noPeerConMsg) s1);
                                s3 = updHub h (\<lambda>H. H\<lparr>CallerClient := None\<rparr>) s2
                            in Inr (StoreCallerIpInHubMap (globalCalleeID (clients s3 c)) [] s3))
                      else Inr s)
             else Inr s))"

text \<open>
  Modelled from the spec: \<^verbatim>\<open>doUnregister\<close> is not among the sources. For a callee
  whose \<open>clearOnCloseDone\<close> is unset it disarms the deadline, processes the time values
  and sets the flag; it clears the hub's callee slot when the closing side is the
  callee.
\<close>

definition doUnregister :: "int64 \<Rightarrow> nat \<Rightarrow> nat \<Rightarrow> string \<Rightarrow> sys \<Rightarrow> sys" where
  "doUnregister now h c comment s =
     (if isCallee (clients s c)
      then (let s1 = (if \<not> clearOnCloseDone (clients s c)
                      then updClient c (\<lambda>C. C\<lparr>clearOnCloseDone := True\<rparr>)
                             (processTimeValues now h comment (setDeadline h 0 comment s))
                      else s)
            in updHub h (\<lambda>H. H\<lparr>CalleeClient := None\<rparr>) s1)
      else s)"

text \<open>Lines 247-269: the socket's close handler.\<close>

definition OnClose :: "int64 \<Rightarrow> nat \<Rightarrow> string \<Rightarrow> sys \<Rightarrow> error + sys" where
  "OnClose now c err s =
     (let s1 = updClient c (\<lambda>C. C\<lparr>isOnline := False\<rparr>) s;
          s2 = (if isCallee (clients s1 c) \<and> isConnectedToPeer (clients s1 c)
                then peerConHasEnded now (Some c) ''OnClose'' s1 else s1)
      in case hub (clients s2 c) of
           None \<Rightarrow> Inl NilPointer
         | Some h \<Rightarrow> Inr (doUnregister now h c (''OnClose'' @ err) s2))"

text \<open>
  Modelled from the spec: the timer of \<^verbatim>\<open>setDeadline\<close> is not among the sources. When
  an armed deadline expires, \<^verbatim>\<open>peerConHasEnded\<close> runs on the hub's callee endpoint.
\<close>

definition deadlineExpired :: "int64 \<Rightarrow> nat \<Rightarrow> string \<Rightarrow> sys \<Rightarrow> sys" where
  "deadlineExpired now h cause s =
     (if 0 <s deadline (hubs s h)
      then peerConHasEnded now (CalleeClient (hubs s h)) (''deadline '' @ cause) s
      else s)"

section \<open>Sequential runs\<close>

text \<open>
  \<open>seqReachable\<close> holds of the states of the runs in which the handlers follow one
  another, each from its first to its last line: at the start no hub has an endpoint
  and no client object exists, and a step is an attach, a frame received on an
  allocated client, a close, the no-peer-con check of a client, or the expiry of a
  hub's deadline. A step that panics or blocks changes nothing. These runs are runs
  of the program, but not all of them: the program also runs handlers of different
  connections in parallel, and the peer flags are written without mutual exclusion
  (the report handler holds only the read lock, \<^verbatim>\<open>peerConHasEnded\<close> clears the flags
  with no lock held). What is proved of \<open>seqReachable\<close> is proved of sequential
  runs only.
\<close>

definition initial :: "sys \<Rightarrow> bool" where
  "initial s =
     (nextClient s = 0 \<and> out s = [] \<and>
      (\<forall>h. CalleeClient (hubs s h) = None \<and> CallerClient (hubs s h) = None))"

inductive seqReachable :: "sys \<Rightarrow> bool" where
  start: "initial s \<Longrightarrow> seqReachable s"
| attach: "seqReachable s \<Longrightarrow> serve now wsid d remoteAddr cid cname ua tls s = Inr s'
             \<Longrightarrow> seqReachable s'"
| frame: "seqReachable s \<Longrightarrow> c < nextClient s \<Longrightarrow> message \<noteq> []
             \<Longrightarrow> receiveProcess now c message s = Inr s' \<Longrightarrow> seqReachable s'"
| closed: "seqReachable s \<Longrightarrow> c < nextClient s \<Longrightarrow> OnClose now c err s = Inr s'
             \<Longrightarrow> seqReachable s'"
| watchdog: "seqReachable s \<Longrightarrow> c < nextClient s \<Longrightarrow> noPeerConWatchdog c s = Inr s'
             \<Longrightarrow> seqReachable s'"
| expiry: "seqReachable s \<Longrightarrow> seqReachable (deadlineExpired now h cause s)"

section \<open>A concrete system\<close>

text \<open>
  The zero values of the structs, a system with nothing attached and one registered
  user, and the states of a small run on hub \<open>0\<close>: the callee attaches (\<open>calleeSys\<close>),
  a caller attaches (\<open>pairSys\<close>), then either the callee reports \<open>Incoming\<close>
  (\<open>ringSys\<close>) and picks up (\<open>talkSys\<close>), or the caller reports \<open>Incoming\<close>
  (\<open>callSys\<close>), or the callee reports \<open>Connected\<close> (\<open>mediaSys\<close>), or the callee's
  socket closes (\<open>goneSys\<close>). \<open>staleSys\<close> is \<open>calleeSys\<close> with two waiting callers
  of long ago.
\<close>

definition client0 :: WsClient where
  "client0 = \<lparr>hub = None, isOnline = False, isConnectedToPeer = False,
      isMediaConnectedToPeer = False, pickupSent = False, calleeInitReceived = False,
      callerOfferForwarded = False, RemoteAddr = [], RemoteAddrNoPort = [],
      userAgent = [], calleeID = [], globalCalleeID = [], connType = [],
      callerID = [], callerName = [], clientVersion = [], callerTextMsg = [],
      pingSent = 0, pongReceived = 0, pongSent = 0, pingReceived = 0,
      authenticationShown = False, isCallee = False, clearOnCloseDone = False\<rparr>"

definition hub0 :: Hub where
  "hub0 = \<lparr>CalleeClient = None, CallerClient = None, IsCalleeHidden = False,
      IsUnHiddenForCallerAddr = [], WsClientID = 0, ServiceStartTime = 0,
      ConnectedToPeerSecs = 0, CallDurationSecs = 0, CalleeLogin = False,
      maxRingSecs = 0, maxTalkSecsIfNoP2p = 0, lastCallStartTime = 0,
      LocalP2p = False, RemoteP2p = False, registrationStartTime = 0, deadline = 0\<rparr>"

definition config0 :: Config where
  "config0 = \<lparr>calleeClientVersion = [], clientUpdateBelowVersion = [],
      disconCalleeOnPeerConnected = False, disconCallerOnPeerConnected = True,
      maxClientRequestsPer30min = 0\<rparr>"

definition user0 :: DbUser where
  "user0 = \<lparr>StoreMissedCalls = True, Int2 = 0, DbConnectedToPeerSecs = 0\<rparr>"

definition sys0 :: sys where
  "sys0 = \<lparr>clients = (\<lambda>c. client0), hubs = (\<lambda>h. hub0), nextClient = 0,
      waitingCallerDb = (\<lambda>k. []), missedCallsDb = (\<lambda>k. []),
      userDb = [''alice_0'' \<mapsto> user0], waitingCallerChanMap = {}, out = [],
      config = config0\<rparr>"

definition ticket0 :: wsClientDataType where
  "ticket0 = \<lparr>wsd_hub = Some 0, wsd_calleeID = ''alice'', wsd_globalID = ''alice'',
      wsd_clientVersion = [], wsd_dbUser = user0, wsd_StartTime = 0\<rparr>"

definition calleeSys :: sys where
  "calleeSys = projr (serve 0 1 ticket0 ''10.0.0.1:5000'' [] [] ''ua-callee'' False sys0)"

definition pairSys :: sys where
  "pairSys =
     projr (serve 0 2 ticket0 ''10.0.0.2:6000'' ''bob'' ''Bob'' ''ua-caller'' False calleeSys)"

definition stale0 :: CallerInfo where
  "stale0 = \<lparr>AddrPort = ''1.2.3.4:5555'', CallerName = [], CallTime = 0,
      CallerID = [], Msg = []\<rparr>"

definition staleSys :: sys where
  "staleSys = calleeSys\<lparr>waitingCallerDb := (\<lambda>k. [])(''alice'' := [stale0, stale0])\<rparr>"

definition ringSys :: sys where
  "ringSys = projr (receiveProcess 40 0 ''log|callee Incoming p2p/p2p'' pairSys)"

definition callSys :: sys where
  "callSys = projr (receiveProcess 40 1 ''log|caller Incoming p2p/p2p'' pairSys)"

definition talkSys :: sys where
  "talkSys = projr (receiveProcess 100 0 ''pickup|'' ringSys)"

definition goneSys :: sys where
  "goneSys = projr (OnClose 60 0 [] pairSys)"

definition mediaSys :: sys where
  "mediaSys = projr (receiveProcess 50 0 ''log|callee Connected p2p/p2p'' pairSys)"

text \<open>
  Three states of a run in which two handlers overlap. The callee's handler of
  \<open>log|callee Connected p2p/p2p\<close> has run through line 950 (\<open>midLogSys\<close>); then the
  caller's \<open>cancel\<close> has run \<^verbatim>\<open>peerConHasEnded\<close> on the callee through line 1148,
  where both flags are cleared on both sides (\<open>midTeardownSys\<close>); then the callee's
  handler has gone on with lines 953-984 (\<open>raceSys\<close>).
\<close>

definition midLogSys :: sys where
  "midLogSys = setP2pFlags 0 [''callee'', ''Connected'', ''p2p/p2p'']
                 (updClient 0 (\<lambda>C. C\<lparr>isConnectedToPeer := True\<rparr>) pairSys)"

definition midTeardownSys :: sys where
  "midTeardownSys = clearPeerFlags 0 0
                      (updClient 0 (\<lambda>C. C\<lparr>calleeInitReceived := False\<rparr>)
                         (endCallTimes 50 0 ''cancel'' midLogSys))"

definition raceSys :: sys where
  "raceSys = calleeConnected 0 0 1 midTeardownSys"

section \<open>Two relations on states\<close>

text \<open>
  \<open>calm s s'\<close>: from \<open>s\<close> to \<open>s'\<close> no client object was allocated, no role changed,
  every endpoint either kept both peer flags or has both cleared, and every hub kept
  its caller or lost it and kept its callee or lost it. \<open>peerInv\<close> is the invariant
  behind the media flag of callee endpoints: the caller slot of a hub never holds an
  endpoint of role callee, and the callee slot always does.
\<close>

definition calm :: "sys \<Rightarrow> sys \<Rightarrow> bool" where
  "calm s s' =
     (nextClient s' = nextClient s \<and>
      (\<forall>x. isCallee (clients s' x) = isCallee (clients s x) \<and>
           ((isConnectedToPeer (clients s' x) = isConnectedToPeer (clients s x) \<and>
             isMediaConnectedToPeer (clients s' x) = isMediaConnectedToPeer (clients s x)) \<or>
            (\<not> isConnectedToPeer (clients s' x) \<and> \<not> isMediaConnectedToPeer (clients s' x)))) \<and>
      (\<forall>h. CallerClient (hubs s' h) = CallerClient (hubs s h) \<or> CallerClient (hubs s' h) = None) \<and>
      (\<forall>h. CalleeClient (hubs s' h) = CalleeClient (hubs s h) \<or> CalleeClient (hubs s' h) = None))"

definition peerInv :: "sys \<Rightarrow> bool" where
  "peerInv s =
     ((\<forall>c. c < nextClient s \<and> isCallee (clients s c) \<and> isMediaConnectedToPeer (clients s c)
            \<longrightarrow> isConnectedToPeer (clients s c)) \<and>
      (\<forall>h k. CallerClient (hubs s h) = Some k \<longrightarrow> k < nextClient s \<and> \<not> isCallee (clients s k)) \<and>
      (\<forall>h e. CalleeClient (hubs s h) = Some e \<longrightarrow> e < nextClient s \<and> isCallee (clients s e)))"

section \<open>Effects of the basic operations\<close>

lemma prim_clients:
  "clients (updClient c f s) = (clients s)(c := f (clients s c))"
  "clients (updHub h g s) = clients s"
  "clients (emit ev s) = clients s"
  "clients (setDeadline h secs cause s) = clients s"
  "clients (processTimeValues now h cause s) = clients s"
  "clients (addMissedCall u ci cause s) = clients s"
  "clients (StoreCallerIpInHubMap gid addr s) = clients s"
  "clients (snd (Write c b s)) = clients s"
  "clients (snd (WriteJson c p xs s)) = clients s"
  "clients (Close c r s) = clients s"
  by (simp_all add: updClient_def updHub_def emit_def setDeadline_def processTimeValues_def
        addMissedCall_def StoreCallerIpInHubMap_def Write_def WriteJson_def Close_def)

lemma prim_hubs:
  "hubs (updClient c f s) = hubs s"
  "hubs (updHub h g s) = (hubs s)(h := g (hubs s h))"
  "hubs (emit ev s) = hubs s"
  "hubs (setDeadline h secs cause s) = (hubs s)(h := (hubs s h)\<lparr>deadline := secs\<rparr>)"
  "hubs (addMissedCall u ci cause s) = hubs s"
  "hubs (StoreCallerIpInHubMap gid addr s) = hubs s"
  "hubs (snd (Write c b s)) = hubs s"
  "hubs (snd (WriteJson c p xs s)) = hubs s"
  "hubs (Close c r s) = hubs s"
  by (simp_all add: updClient_def updHub_def emit_def setDeadline_def
        addMissedCall_def StoreCallerIpInHubMap_def Write_def WriteJson_def Close_def)

lemma prim_hubs_time:
  "CalleeClient (hubs (processTimeValues now h cause s) x) = CalleeClient (hubs s x)"
  "CallerClient (hubs (processTimeValues now h cause s) x) = CallerClient (hubs s x)"
  "lastCallStartTime (hubs (processTimeValues now h cause s) x) = lastCallStartTime (hubs s x)"
  "deadline (hubs (processTimeValues now h cause s) x) = deadline (hubs s x)"
  "registrationStartTime (hubs (processTimeValues now h cause s) x) = registrationStartTime (hubs s x)"
  by (simp_all add: processTimeValues_def updHub_def)

lemma prim_next:
  "nextClient (updClient c f s) = nextClient s"
  "nextClient (updHub h g s) = nextClient s"
  "nextClient (emit ev s) = nextClient s"
  "nextClient (setDeadline h secs cause s) = nextClient s"
  "nextClient (processTimeValues now h cause s) = nextClient s"
  "nextClient (addMissedCall u ci cause s) = nextClient s"
  "nextClient (StoreCallerIpInHubMap gid addr s) = nextClient s"
  "nextClient (snd (Write c b s)) = nextClient s"
  "nextClient (snd (WriteJson c p xs s)) = nextClient s"
  "nextClient (Close c r s) = nextClient s"
  by (simp_all add: updClient_def updHub_def emit_def setDeadline_def processTimeValues_def
        addMissedCall_def StoreCallerIpInHubMap_def Write_def WriteJson_def Close_def)

lemma doBroadcast_frame:
  "clients (doBroadcast h m s) = clients s"
  "hubs (doBroadcast h m s) = hubs s"
  "nextClient (doBroadcast h m s) = nextClient s"
  by (simp_all add: doBroadcast_def Let_def prim_clients prim_hubs prim_next split: option.splits)

lemmas prim_simps = prim_clients prim_hubs prim_hubs_time prim_next doBroadcast_frame

lemma prim_out:
  "out (updClient c f s) = out s"
  "out (updHub h g s) = out s"
  "out (emit ev s) = out s @ [ev]"
  "out (setDeadline h secs cause s) = out s"
  "out (processTimeValues now h cause s) = out s"
  "out (addMissedCall u ci cause s) = out s"
  "out (snd (Write c b s)) = out s @ (if isOnline (clients s c) then [TextFrame c b] else [])"
  "out (Close c r s) = out s @ (if isOnline (clients s c) then [CloseFrame c] else [])"
  by (simp_all add: updClient_def updHub_def emit_def setDeadline_def processTimeValues_def
        addMissedCall_def Write_def Close_def)

lemma prim_db:
  "missedCallsDb (updClient c f s) = missedCallsDb s"
  "missedCallsDb (updHub h g s) = missedCallsDb s"
  "missedCallsDb (emit ev s) = missedCallsDb s"
  "missedCallsDb (setDeadline h secs cause s) = missedCallsDb s"
  "missedCallsDb (processTimeValues now h cause s) = missedCallsDb s"
  "missedCallsDb (StoreCallerIpInHubMap gid addr s) = missedCallsDb s"
  "missedCallsDb (addMissedCall u ci cause s) = (missedCallsDb s)(u := missedCallsDb s u @ [ci])"
  "userDb (updClient c f s) = userDb s"
  "userDb (updHub h g s) = userDb s"
  "userDb (emit ev s) = userDb s"
  "userDb (setDeadline h secs cause s) = userDb s"
  "userDb (processTimeValues now h cause s) = userDb s"
  by (simp_all add: updClient_def updHub_def emit_def setDeadline_def processTimeValues_def
        addMissedCall_def StoreCallerIpInHubMap_def)

lemma prim_waiting:
  "waitingCallerDb (updClient c f s) = waitingCallerDb s"
  "waitingCallerDb (updHub h g s) = waitingCallerDb s"
  "waitingCallerDb (emit ev s) = waitingCallerDb s"
  "waitingCallerDb (snd (Write c b s)) = waitingCallerDb s"
  "config (updClient c f s) = config s"
  "config (updHub h g s) = config s"
  "config (snd (Write c b s)) = config s"
  by (simp_all add: updClient_def updHub_def emit_def Write_def)

lemma Write_fst: "fst (Write c b s) = None \<longleftrightarrow> isOnline (clients s c)"
  by (simp add: Write_def)

lemma endCallTimes_frame:
  "clients (endCallTimes now h cause s) = clients s"
  "nextClient (endCallTimes now h cause s) = nextClient s"
  "CallerClient (hubs (endCallTimes now h cause s) x) = CallerClient (hubs s x)"
  "CalleeClient (hubs (endCallTimes now h cause s) x) = CalleeClient (hubs s x)"
  "registrationStartTime (hubs (endCallTimes now h cause s) x) = registrationStartTime (hubs s x)"
  by (simp_all add: endCallTimes_def Let_def prim_simps)

lemma endCallTimes_frame2:
  "missedCallsDb (endCallTimes now h cause s) = missedCallsDb s"
  "userDb (endCallTimes now h cause s) = userDb s"
  "\<not> 0 <s lastCallStartTime (hubs s h) \<Longrightarrow>
     CallDurationSecs (hubs (endCallTimes now h cause s) h) = CallDurationSecs (hubs s h)"
  by (simp_all add: endCallTimes_def Let_def prim_simps prim_db)

lemma storeMissedCall_frame:
  "clients (storeMissedCall now c h cause s) = clients s"
  "hubs (storeMissedCall now c h cause s) = hubs s"
  "nextClient (storeMissedCall now c h cause s) = nextClient s"
  by (simp_all add: storeMissedCall_def Let_def prim_simps split: option.splits)

lemma clearPeerFlags_frame:
  "hubs (clearPeerFlags c h s) = hubs s"
  "missedCallsDb (clearPeerFlags c h s) = missedCallsDb s"
  "userDb (clearPeerFlags c h s) = userDb s"
  "calleeID (clients (clearPeerFlags c h s) x) = calleeID (clients s x)"
  "callerID (clients (clearPeerFlags c h s) x) = callerID (clients s x)"
  "callerName (clients (clearPeerFlags c h s) x) = callerName (clients s x)"
  "callerTextMsg (clients (clearPeerFlags c h s) x) = callerTextMsg (clients s x)"
  "RemoteAddrNoPort (clients (clearPeerFlags c h s) x) = RemoteAddrNoPort (clients s x)"
  "globalCalleeID (clients (clearPeerFlags c h s) x) = globalCalleeID (clients s x)"
  by (simp_all add: clearPeerFlags_def Let_def prim_simps prim_db split: option.splits)

lemma setP2pFlags_frame:
  "clients (setP2pFlags h tok s) = clients s"
  "nextClient (setP2pFlags h tok s) = nextClient s"
  "CallerClient (hubs (setP2pFlags h tok s) x) = CallerClient (hubs s x)"
  "CalleeClient (hubs (setP2pFlags h tok s) x) = CalleeClient (hubs s x)"
  by (simp_all add: setP2pFlags_def Let_def prim_simps)

lemma setP2pFlags_frame2:
  "out (setP2pFlags h tok s) = out s"
  "missedCallsDb (setP2pFlags h tok s) = missedCallsDb s"
  "userDb (setP2pFlags h tok s) = userDb s"
  "lastCallStartTime (hubs (setP2pFlags h tok s) x) = lastCallStartTime (hubs s x)"
  "CallDurationSecs (hubs (setP2pFlags h tok s) x) = CallDurationSecs (hubs s x)"
  "registrationStartTime (hubs (setP2pFlags h tok s) x) = registrationStartTime (hubs s x)"
  "deadline (hubs (setP2pFlags h tok s) x) = deadline (hubs s x)"
  by (simp_all add: setP2pFlags_def Let_def prim_simps prim_out prim_db)

lemma calleeConnected_frame:
  "nextClient (calleeConnected c h k s) = nextClient s"
  "CallerClient (hubs (calleeConnected c h k s) x) = CallerClient (hubs s x)"
  "CalleeClient (hubs (calleeConnected c h k s) x) = CalleeClient (hubs s x)"
  "isCallee (clients (calleeConnected c h k s) x) = isCallee (clients s x)"
  "isConnectedToPeer (clients (calleeConnected c h k s) x) = isConnectedToPeer (clients s x)"
  "isMediaConnectedToPeer (clients (calleeConnected c h k s) x) =
     (if \<not> isMediaConnectedToPeer (clients s c) \<and> (x = c \<or> x = k) then True
      else isMediaConnectedToPeer (clients s x))"
  by (simp_all add: calleeConnected_def Let_def prim_simps)

lemma callerConnected_frame:
  "clients (callerConnected constate e k s) = clients s"
  "hubs (callerConnected constate e k s) = hubs s"
  "nextClient (callerConnected constate e k s) = nextClient s"
  by (simp_all add: callerConnected_def Let_def prim_simps)

lemma storeUserBit_frame:
  "clients (storeUserBit c h b on s) = clients s"
  "hubs (storeUserBit c h b on s) = hubs s"
  "nextClient (storeUserBit c h b on s) = nextClient s"
  by (simp_all add: storeUserBit_def split: option.splits if_splits)

section \<open>Frame validation: splitting at the pipe\<close>

lemma Index_neg_iff: "Index xs sep < 0 \<longleftrightarrow> sep \<notin> set xs"
  by (induction xs) (auto simp: Let_def)

lemma Split_nonempty: "Split m sep \<noteq> []"
  by (induction m) (auto split: list.splits)

lemma Split_length: "length (Split m sep) = Suc (count_list m sep)"
  by (induction m) (auto split: list.splits simp: Split_nonempty)

lemma Split_no_sep: "sep \<notin> set m \<Longrightarrow> Split m sep = [m]"
  by (induction m) auto

lemma Split_one:
  "count_list m sep = 1 \<Longrightarrow>
   Split m sep = [takeWhile (\<lambda>x. x \<noteq> sep) m, tl (dropWhile (\<lambda>x. x \<noteq> sep) m)]"
proof (induction m)
  case Nil
  then show ?case by simp
next
  case (Cons x xs)
  show ?case
  proof (cases "x = sep")
    case True
    with Cons.prems have "count_list xs sep = 0" by simp
    then have "sep \<notin> set xs" by (simp add: count_list_0_iff)
    with True show ?thesis by (simp add: Split_no_sep)
  next
    case False
    with Cons.prems have "count_list xs sep = 1" by simp
    with Cons.IH False show ?thesis by simp
  qed
qed

lemma splitFrame_eq:
  "splitFrame m =
     (if CHR ''|'' \<in> set (take 32 m) \<and> count_list m (CHR ''|'') = 1
      then Some (takeWhile (\<lambda>x. x \<noteq> CHR ''|'') m, tl (dropWhile (\<lambda>x. x \<noteq> CHR ''|'') m))
      else None)"
proof -
  have take_eq: "take (if length m < 32 then length m else 32) m = take 32 m"
    by simp
  show ?thesis
    unfolding splitFrame_def Let_def take_eq
    by (auto simp: Index_neg_iff Split_length Split_one)
qed

lemma splitFrame_cmd:
  assumes "CHR ''|'' \<notin> set cmd" "length cmd < 32" "CHR ''|'' \<notin> set payload"
  shows "splitFrame (cmd @ CHR ''|'' # payload) = Some (cmd, payload)"
proof -
  from assms(2) obtain m where m: "32 - length cmd = Suc m"
    by (cases "32 - length cmd") auto
  have 1: "CHR ''|'' \<in> set (take 32 (cmd @ CHR ''|'' # payload))"
    by (simp add: m)
  have 2: "count_list (cmd @ CHR ''|'' # payload) (CHR ''|'') = 1"
    using assms(1,3) by (simp add: count_list_0_iff)
  have 3: "takeWhile (\<lambda>x. x \<noteq> CHR ''|'') (cmd @ CHR ''|'' # payload) = cmd"
    using assms(1) by (induction cmd) auto
  have 4: "dropWhile (\<lambda>x. x \<noteq> CHR ''|'') (cmd @ CHR ''|'' # payload) = CHR ''|'' # payload"
    using assms(1) by (induction cmd) auto
  show ?thesis by (simp only: splitFrame_eq 1 2 3 4) simp
qed

lemma log_frame_ex: "splitFrame ''log|callee Connected p2p/p2p'' = Some (''log'', ''callee Connected p2p/p2p'')"
  by (simp add: splitFrame_eq)

lemma log_frames:
  "splitFrame ''log|callee Incoming p2p/p2p'' = Some (''log'', ''callee Incoming p2p/p2p'')"
  "splitFrame ''log|caller Incoming p2p/p2p'' = Some (''log'', ''caller Incoming p2p/p2p'')"
  "splitFrame ''pickup|'' = Some (''pickup'', [])"
  "splitFrame ''cancel|bye'' = Some (''cancel'', ''bye'')"
  by (simp_all add: splitFrame_eq)

lemma split_ex: "Split ''callee Connected p2p/p2p'' (CHR '' '') = [''callee'', ''Connected'', ''p2p/p2p'']"
  by simp

lemma trim_ex: "TrimSpace ''Connected'' = ''Connected''" "TrimSpace ''p2p/p2p'' = ''p2p/p2p''"
  by (simp_all add: TrimSpace_def stripCodes.simps spaceCodes_def)

lemma trim_exs:
  "TrimSpace ''Incoming'' = ''Incoming''" "TrimSpace ''p2p/p2p'' = ''p2p/p2p''"
  by (simp_all add: TrimSpace_def stripCodes.simps spaceCodes_def)


section \<open>The concrete system, step by step\<close>

lemma calleeSys_serve:
  "serve 0 1 ticket0 ''10.0.0.1:5000'' [] [] ''ua-callee'' False sys0 = Inr calleeSys"
  by (simp add: calleeSys_def serve_def ticket0_def Let_def)

lemma calleeSys_fields:
  "nextClient calleeSys = 1"
  "hubs calleeSys 0 = hub0\<lparr>CalleeClient := Some 0, WsClientID := 1\<rparr>"
  "clients calleeSys 0 =
     (newClient ticket0 ''10.0.0.1:5000'' [] [] ''ua-callee'' False)\<lparr>isCallee := True\<rparr>"
  "waitingCallerDb calleeSys = (\<lambda>k. [])"
  "missedCallsDb calleeSys = (\<lambda>k. [])"
  "userDb calleeSys = [''alice_0'' \<mapsto> user0]"
  "out calleeSys = []"
  "config calleeSys = config0"
  by (simp_all add: calleeSys_def serve_def ticket0_def Let_def sys0_def hub0_def updHub_def
        updClient_def HasPrefix_def newClient_def user0_def)

lemma calleeSys_one: "clients calleeSys (Suc 0) = client0"
  by (simp add: calleeSys_def serve_def ticket0_def Let_def sys0_def updHub_def updClient_def)

lemma pairSys_serve:
  "serve 0 2 ticket0 ''10.0.0.2:6000'' ''bob'' ''Bob'' ''ua-caller'' False calleeSys = Inr pairSys"
  by (simp add: pairSys_def serve_def ticket0_def Let_def calleeSys_fields hub0_def)

lemma pairSys_one:
  "clients pairSys (Suc 0) = newClient ticket0 ''10.0.0.2:6000'' ''bob'' ''Bob'' ''ua-caller'' False"
  by (simp add: pairSys_def serve_def ticket0_def Let_def calleeSys_fields hub0_def
        updHub_def updClient_def newClient_def)

lemma pairSys_fields:
  "nextClient pairSys = 2"
  "hubs pairSys 0 = hub0\<lparr>CalleeClient := Some 0, CallerClient := Some 1, WsClientID := 1\<rparr>"
  "clients pairSys 0 =
     (newClient ticket0 ''10.0.0.1:5000'' [] [] ''ua-callee'' False)\<lparr>isCallee := True\<rparr>"
  "clients pairSys 1 = newClient ticket0 ''10.0.0.2:6000'' ''bob'' ''Bob'' ''ua-caller'' False"
  "waitingCallerDb pairSys = (\<lambda>k. [])"
  "missedCallsDb pairSys = (\<lambda>k. [])"
  "userDb pairSys = [''alice_0'' \<mapsto> user0]"
  "out pairSys = []"
  "config pairSys = config0"
  by (simp_all add: pairSys_def serve_def ticket0_def Let_def calleeSys_fields hub0_def
        updHub_def updClient_def newClient_def)

lemma seqReachable_pairSys: "seqReachable calleeSys \<and> seqReachable pairSys"
proof -
  have "initial sys0" by (simp add: initial_def sys0_def hub0_def)
  then have "seqReachable sys0" by (rule seqReachable.start)
  then have c: "seqReachable calleeSys" using calleeSys_serve by (rule seqReachable.attach)
  then have "seqReachable pairSys" using pairSys_serve by (rule seqReachable.attach)
  with c show ?thesis by simp
qed

lemma staleSys_fields:
  "clients staleSys = clients calleeSys" "hubs staleSys = hubs calleeSys"
  "config staleSys = config0" "waitingCallerDb staleSys ''alice'' = [stale0, stale0]"
  by (simp_all add: staleSys_def calleeSys_fields)

lemma cmdLog_callee_incoming:
  "cmdLog 0 ''callee Incoming p2p/p2p'' pairSys =
     Inr (setP2pFlags 0 [''callee'', ''Incoming'', ''p2p/p2p'']
            (updClient 0 (\<lambda>C. C\<lparr>isConnectedToPeer := True\<rparr>) pairSys))"
  by (simp add: cmdLog_def pairSys_fields hub0_def newClient_def ticket0_def Let_def trim_exs
        index_def isPeerConstate_def prim_simps)

lemma ringSys_step:
  "receiveProcess 40 0 ''log|callee Incoming p2p/p2p'' pairSys = Inr ringSys"
  by (simp add: ringSys_def receiveProcess_def log_frames dispatch_def cmdLog_callee_incoming)

lemma ringSys_eq:
  "ringSys = setP2pFlags 0 [''callee'', ''Incoming'', ''p2p/p2p'']
               (updClient 0 (\<lambda>C. C\<lparr>isConnectedToPeer := True\<rparr>) pairSys)"
  by (simp add: ringSys_def receiveProcess_def log_frames dispatch_def cmdLog_callee_incoming)

lemma ringSys_fields:
  "clients ringSys 0 = (clients pairSys 0)\<lparr>isConnectedToPeer := True\<rparr>"
  "clients ringSys (Suc 0) = clients pairSys (Suc 0)"
  "CallerClient (hubs ringSys 0) = Some 1"
  "CalleeClient (hubs ringSys 0) = Some 0"
  "lastCallStartTime (hubs ringSys 0) = 0"
  "CallDurationSecs (hubs ringSys 0) = 0"
  "registrationStartTime (hubs ringSys 0) = 0"
  "out ringSys = []"
  "missedCallsDb ringSys = (\<lambda>k. [])"
  "userDb ringSys = [''alice_0'' \<mapsto> user0]"
  by (simp_all add: ringSys_eq setP2pFlags_frame setP2pFlags_frame2 prim_simps prim_out prim_db
        pairSys_fields hub0_def)

lemma cmdLog_caller_incoming:
  "cmdLog (Suc 0) ''caller Incoming p2p/p2p'' pairSys =
     Inr (setP2pFlags 0 [''caller'', ''Incoming'', ''p2p/p2p'']
            (updClient 0 (\<lambda>C. C\<lparr>isConnectedToPeer := True\<rparr>)
               (updClient (Suc 0) (\<lambda>C. C\<lparr>isConnectedToPeer := True\<rparr>) pairSys)))"
  by (simp add: cmdLog_def pairSys_fields pairSys_one hub0_def newClient_def ticket0_def Let_def
        trim_exs index_def isPeerConstate_def prim_simps)

lemma callSys_step:
  "receiveProcess 40 1 ''log|caller Incoming p2p/p2p'' pairSys = Inr callSys"
  by (simp add: callSys_def receiveProcess_def log_frames dispatch_def cmdLog_caller_incoming)

lemma callSys_eq:
  "callSys = setP2pFlags 0 [''caller'', ''Incoming'', ''p2p/p2p'']
               (updClient 0 (\<lambda>C. C\<lparr>isConnectedToPeer := True\<rparr>)
                  (updClient 1 (\<lambda>C. C\<lparr>isConnectedToPeer := True\<rparr>) pairSys))"
  by (simp add: callSys_def receiveProcess_def log_frames dispatch_def cmdLog_caller_incoming)

lemma callSys_fields:
  "clients callSys 0 = (clients pairSys 0)\<lparr>isConnectedToPeer := True\<rparr>"
  "clients callSys (Suc 0) = (clients pairSys (Suc 0))\<lparr>isConnectedToPeer := True\<rparr>"
  "CallerClient (hubs callSys 0) = Some 1"
  "CalleeClient (hubs callSys 0) = Some 0"
  "lastCallStartTime (hubs callSys 0) = 0"
  "out callSys = []"
  by (simp_all add: callSys_eq setP2pFlags_frame setP2pFlags_frame2 prim_simps prim_out prim_db
        pairSys_fields hub0_def)


lemma talkSys_step: "receiveProcess 100 0 ''pickup|'' ringSys = Inr talkSys"
  by (simp add: talkSys_def receiveProcess_def log_frames dispatch_def cmdPickup_def Let_def
        ringSys_fields pairSys_fields newClient_def ticket0_def prim_simps)


lemma seqReachable_talkSys: "seqReachable ringSys \<and> seqReachable callSys \<and> seqReachable talkSys"
proof -
  have p: "seqReachable pairSys" using seqReachable_pairSys by simp
  have 2: "(0::nat) < nextClient pairSys" "(1::nat) < nextClient pairSys"
    by (simp_all add: pairSys_fields)
  have r: "seqReachable ringSys"
    using p 2(1) _ ringSys_step by (rule seqReachable.frame) simp
  have c: "seqReachable callSys"
    using p 2(2) _ callSys_step by (rule seqReachable.frame) simp
  have "nextClient ringSys = 2"
    by (simp add: ringSys_eq setP2pFlags_frame prim_simps pairSys_fields)
  then have "(0::nat) < nextClient ringSys" by simp
  then have "seqReachable talkSys"
    using seqReachable.frame [OF r _ _ talkSys_step] by simp
  with r c show ?thesis by simp
qed

lemma goneSys_fields:
  "hub (clients goneSys (Suc 0)) = Some 0" "CalleeClient (hubs goneSys 0) = None"
  "isOnline (clients goneSys (Suc 0))" "out goneSys = []"
  by (simp_all add: goneSys_def OnClose_def Let_def prim_simps prim_out pairSys_fields pairSys_one
        newClient_def ticket0_def doUnregister_def hub0_def)

lemma goneSys_step: "OnClose 60 0 [] pairSys = Inr goneSys"
  by (simp add: goneSys_def OnClose_def Let_def prim_simps pairSys_fields newClient_def ticket0_def)

lemma mediaSys_step:
  "receiveProcess 50 0 ''log|callee Connected p2p/p2p'' pairSys = Inr mediaSys"
  by (simp add: mediaSys_def receiveProcess_def log_frame_ex dispatch_def cmdLog_def
        pairSys_fields hub0_def newClient_def ticket0_def Let_def split_ex trim_ex index_def isPeerConstate_def)

lemma mediaSys_flags:
  "isConnectedToPeer (clients mediaSys 0)" "isMediaConnectedToPeer (clients mediaSys 0)"
  "\<not> isConnectedToPeer (clients mediaSys 1)" "isMediaConnectedToPeer (clients mediaSys 1)"
  "nextClient mediaSys = 2" "\<not> isCallee (clients mediaSys 1)" "isCallee (clients mediaSys 0)" 
  by (simp_all add: mediaSys_def receiveProcess_def log_frame_ex dispatch_def cmdLog_def
        pairSys_fields hub0_def newClient_def ticket0_def Let_def split_ex trim_ex index_def isPeerConstate_def
        prim_simps setP2pFlags_frame calleeConnected_frame pairSys_one)

lemma seqReachable_mediaSys: "seqReachable mediaSys"
proof -
  have p: "seqReachable pairSys" using seqReachable_pairSys by simp
  have "(0::nat) < nextClient pairSys" by (simp add: pairSys_fields)
  then show ?thesis using seqReachable.frame [OF p _ _ mediaSys_step] by simp
qed

lemma userKey_alice:
  "userKey 0 0 ringSys = ''alice_0''" "userKey 0 0 pairSys = ''alice_0''"
  by (simp_all add: userKey_def ringSys_fields pairSys_fields newClient_def ticket0_def hub0_def
        FormatInt_def digitsOf.simps)

section \<open>C1: which frames are dispatched\<close>

text \<open>
  C1, as the code has it. A frame is dispatched exactly when a \<open>|\<close> stands among its
  first 32 bytes and it is the only \<open>|\<close> of the whole frame; the command is then the
  text before it and the payload the text after it. Every other frame, one without a
  \<open>|\<close> in its first 32 bytes as well as one with a second \<open>|\<close> anywhere, is dropped and
  leaves the state as it was.
\<close>

theorem receiveProcess_split:
  "receiveProcess now c m s =
     (if CHR ''|'' \<in> set (take 32 m) \<and> count_list m (CHR ''|'') = 1
      then dispatch now c (takeWhile (\<lambda>x. x \<noteq> CHR ''|'') m)
             (tl (dropWhile (\<lambda>x. x \<noteq> CHR ''|'') m)) m s
      else Inr s)"
  by (simp add: receiveProcess_def splitFrame_eq)

text \<open>The theorem at \<open>check|a\<close>, which is dispatched, and at \<open>check\<close>, which is dropped.\<close>

theorem receiveProcess_split_witness:
  "receiveProcess 0 0 ''check|a'' calleeSys = dispatch 0 0 ''check'' ''a'' ''check|a'' calleeSys \<and>
   receiveProcess 0 0 ''check'' calleeSys = Inr calleeSys"
  using receiveProcess_split [of 0 0 "''check|a''" calleeSys]
        receiveProcess_split [of 0 0 "''check''" calleeSys]
  by simp

text \<open>
  C1 as stated fails: the frame \<open>check|a|b\<close> has its first \<open>|\<close> at byte 5, yet it is
  dropped, where dispatching it with the payload \<open>a|b\<close> would have answered
  \<open>confirm|a|b\<close>.
\<close>

theorem receiveProcess_second_pipe_dropped:
  "Index (take 32 ''check|a|b'') (CHR ''|'') = 5 \<and>
   receiveProcess 0 0 ''check|a|b'' calleeSys = Inr calleeSys \<and>
   dispatch 0 0 ''check'' ''a|b'' ''check|a|b'' calleeSys
     = Inr (emit (TextFrame 0 ''confirm|a|b'') calleeSys) \<and>
   out (emit (TextFrame 0 ''confirm|a|b'') calleeSys) \<noteq> out calleeSys"
proof (intro conjI)
  show "Index (take 32 ''check|a|b'') (CHR ''|'') = 5" by simp
  show "receiveProcess 0 0 ''check|a|b'' calleeSys = Inr calleeSys"
    by (simp add: receiveProcess_def splitFrame_eq)
  show "dispatch 0 0 ''check'' ''a|b'' ''check|a|b'' calleeSys
          = Inr (emit (TextFrame 0 ''confirm|a|b'') calleeSys)"
    by (simp add: dispatch_def Write_def calleeSys_fields newClient_def)
  show "out (emit (TextFrame 0 ''confirm|a|b'') calleeSys) \<noteq> out calleeSys"
    by (simp add: emit_def)
qed

section \<open>C9: the Write contract\<close>

text \<open>
  C9. \<^verbatim>\<open>Write\<close> returns the write-not-connected error exactly when the endpoint is
  not online, and then writes nothing; when the endpoint is online it appends the
  bytes as one TEXT frame on the endpoint's socket and returns no error.
\<close>

theorem Write_contract:
  "(fst (Write c b s) = Some ErrWriteNotConnected \<longleftrightarrow> \<not> isOnline (clients s c)) \<and>
   (\<not> isOnline (clients s c) \<longrightarrow> snd (Write c b s) = s) \<and>
   (isOnline (clients s c) \<longrightarrow> Write c b s = (None, s\<lparr>out := out s @ [TextFrame c b]\<rparr>))"
  by (simp add: Write_def emit_def)

text \<open>The theorem at the attached callee, which is online, and at client \<open>1\<close>, which is not.\<close>

theorem Write_contract_witness:
  "isOnline (clients calleeSys 0) \<and>
   Write 0 ''ua|x'' calleeSys = (None, calleeSys\<lparr>out := out calleeSys @ [TextFrame 0 ''ua|x'']\<rparr>) \<and>
   \<not> isOnline (clients calleeSys 1) \<and>
   Write 1 ''ua|x'' calleeSys = (Some ErrWriteNotConnected, calleeSys)"
  using Write_contract [of 0 "''ua|x''" calleeSys] Write_contract [of 1 "''ua|x''" calleeSys]
  by (simp add: calleeSys_fields calleeSys_one newClient_def client0_def prod_eq_iff)

section \<open>C10 and C5: pruning the waiting callers\<close>

lemma pruneLoop_step:
  assumes "idx < n" "idx < length xs"
  shows "pruneLoop now n idx xs k =
           (if outdated now (xs ! idx)
            then pruneLoop now n (idx + 1) (take idx xs @ drop (idx + 1) xs) (k + 1)
            else pruneLoop now n (idx + 1) xs k)"
  using assms
  by (simp add: pruneLoop.simps [of now n idx xs k] index_def sliceTo_def sliceFrom_def)

lemma pruneLoop_stop:
  "n \<le> idx \<or> length xs \<le> idx \<Longrightarrow> pruneLoop now n idx xs k = Inr (xs, k)"
  by (auto simp: pruneLoop.simps [of now n idx xs k])

lemma pruneLoop_total: "\<exists>r. pruneLoop now n idx xs k = Inr r"
proof (induction "n - idx" arbitrary: idx xs k)
  case 0
  then show ?case by (simp add: pruneLoop_stop)
next
  case (Suc d)
  show ?case
  proof (cases "idx < length xs")
    case True
    moreover from Suc.hyps(2) have "idx < n" by simp
    moreover from Suc.hyps(2) have "d = n - (idx + 1)" by simp
    ultimately show ?thesis
      using Suc.hyps(1) by (simp add: pruneLoop_step)
  next
    case False
    then show ?thesis by (simp add: pruneLoop_stop)
  qed
qed

lemma sendWaitingAndMissed_total: "\<exists>s'. sendWaitingAndMissed now c s = Inr s'"
proof -
  obtain r where "pruneWaiting now (waitingCallerDb s (calleeID (clients s c))) = Inr r"
    using pruneLoop_total unfolding pruneWaiting_def by blast
  then show ?thesis
    by (cases r) (simp add: sendWaitingAndMissed_def Let_def)
qed

lemma cmdInit_total: "\<exists>s'. cmdInit now c s = Inr s'"
  using sendWaitingAndMissed_total
  by (simp add: cmdInit_def Let_def split: option.splits)

lemma cmdInit_persists:
  assumes "isCallee (clients s c)" "\<not> calleeInitReceived (clients s c)"
    and "hub (clients s c) = Some h" "isOnline (clients s c)"
    and "\<not> HasPrefix (calleeID (clients s c)) ''answie''"
    and "\<not> HasPrefix (calleeID (clients s c)) ''talkback''"
    and "clientUpdateBelowVersion (config s) = []"
    and "pruneWaiting now (waitingCallerDb s (calleeID (clients s c))) = Inr (ws, k)" "0 < k"
  shows "\<exists>s'. cmdInit now c s = Inr s' \<and> waitingCallerDb s' (calleeID (clients s c)) = ws"
proof -
  define s4 where "s4 = updClient c (\<lambda>C. C\<lparr>pickupSent := False, clearOnCloseDone := False,
                                                callerTextMsg := []\<rparr>)
         (updHub h (\<lambda>H. H\<lparr>CalleeLogin := True\<rparr>)
           (updClient c (\<lambda>C. C\<lparr>calleeInitReceived := True\<rparr>)
             (updHub h (\<lambda>H. H\<lparr>CallerClient := None\<rparr>) s)))"
  define s5 where "s5 = snd (Write c (''sessionId|'' @ calleeClientVersion (config s4)) s4)"
  have id5: "calleeID (clients s5 c) = calleeID (clients s c)"
    and wdb: "waitingCallerDb s5 = waitingCallerDb s"
    by (simp_all add: s5_def s4_def prim_simps prim_waiting)
  have "cmdInit now c s = sendWaitingAndMissed now c s5"
    unfolding cmdInit_def Let_def s5_def s4_def
    using assms(1-7) by (simp add: prim_simps prim_waiting Write_fst)
  moreover have "\<exists>s'. sendWaitingAndMissed now c s5 = Inr s'
                   \<and> waitingCallerDb s' (calleeID (clients s c)) = ws"
    using assms(8,9) by (simp add: sendWaitingAndMissed_def Let_def id5 wdb emit_def)
  ultimately show ?thesis by simp
qed

text \<open>
  C10. Whatever the list of waiting callers, the pruning loop reads no index outside
  the slice: it never ends in \<open>IndexOutOfRange\<close>, and the \<open>init\<close> command returns a
  state for every client and every system.
\<close>

theorem prune_in_bounds:
  "(\<exists>r. pruneWaiting now xs = Inr r) \<and>
   (\<exists>s'. dispatch now c ''init'' payload message s = Inr s')"
  using pruneLoop_total [of now "length xs" 0 xs 0] cmdInit_total [of now c s]
  by (simp add: pruneWaiting_def dispatch_def)

text \<open>
  The theorem at three outdated entries: the second round removes index 1 of the two
  that are left, the third round meets \<open>idx = 2\<close> with one entry left and stops.
\<close>

theorem prune_in_bounds_witness:
  "pruneWaiting 1000 [stale0, stale0, stale0] = Inr ([stale0], 2) \<and>
   (\<exists>s'. dispatch 1000 0 ''init'' [] ''init|'' staleSys = Inr s')"
  using prune_in_bounds [of 1000 "[stale0, stale0, stale0]" 0 "[]" "''init|''" staleSys]
  by (simp add: pruneWaiting_def pruneLoop_step pruneLoop_stop outdated_def stale0_def)

text \<open>
  C5 fails on the code. With two entries in a row that are both older than ten
  minutes, the loop removes the first, steps over the second, which has moved into
  the freed place, and stops: the list that the \<open>init\<close> command keeps and persists
  still holds an outdated entry.
\<close>

theorem prune_skips_next_entry:
  "outdated 1000 stale0 \<and>
   pruneWaiting 1000 [stale0, stale0] = Inr ([stale0], 1) \<and>
   (\<exists>s'. receiveProcess 1000 0 ''init|'' staleSys = Inr s' \<and> waitingCallerDb s' ''alice'' = [stale0])"
proof (intro conjI)
  show "outdated 1000 stale0" by (simp add: outdated_def stale0_def)
  show p: "pruneWaiting 1000 [stale0, stale0] = Inr ([stale0], 1)"
    by (simp add: pruneWaiting_def pruneLoop_step pruneLoop_stop outdated_def stale0_def)
  have f: "splitFrame ''init|'' = Some (''init'', [])" by (simp add: splitFrame_eq)
  have c: "clients staleSys 0 =
     (newClient ticket0 ''10.0.0.1:5000'' [] [] ''ua-callee'' False)\<lparr>isCallee := True\<rparr>"
    by (simp add: staleSys_fields calleeSys_fields)
  have "\<exists>s'. cmdInit 1000 0 staleSys = Inr s'
           \<and> waitingCallerDb s' (calleeID (clients staleSys 0)) = [stale0]"
  proof (rule cmdInit_persists)
    show "isCallee (clients staleSys 0)" by (simp add: c)
    show "\<not> calleeInitReceived (clients staleSys 0)" by (simp add: c newClient_def)
    show "hub (clients staleSys 0) = Some 0" by (simp add: c newClient_def ticket0_def)
    show "isOnline (clients staleSys 0)" by (simp add: c newClient_def)
    show "\<not> HasPrefix (calleeID (clients staleSys 0)) ''answie''"
      by (simp add: c newClient_def ticket0_def HasPrefix_def)
    show "\<not> HasPrefix (calleeID (clients staleSys 0)) ''talkback''"
      by (simp add: c newClient_def ticket0_def HasPrefix_def)
    show "clientUpdateBelowVersion (config staleSys) = []"
      by (simp add: staleSys_fields config0_def)
    show "pruneWaiting 1000 (waitingCallerDb staleSys (calleeID (clients staleSys 0))) = Inr ([stale0], 1)"
      by (simp add: c newClient_def ticket0_def staleSys_fields(4) p)
    show "0 < (1::nat)" by simp
  qed
  moreover have "calleeID (clients staleSys 0) = ''alice''"
    by (simp add: c newClient_def ticket0_def)
  ultimately show "\<exists>s'. receiveProcess 1000 0 ''init|'' staleSys = Inr s'
                      \<and> waitingCallerDb s' ''alice'' = [stale0]"
    by (simp add: receiveProcess_def f dispatch_def)
qed

section \<open>Steps that leave the peer flags alone\<close>

lemma calm_refl: "calm s s"
  by (simp add: calm_def)

lemma calm_trans: "calm s s' \<Longrightarrow> calm s' s'' \<Longrightarrow> calm s s''"
  unfolding calm_def by (intro conjI allI) (metis+)

lemma calmI:
  assumes "nextClient s' = nextClient s"
    and "\<And>x. isCallee (clients s' x) = isCallee (clients s x)"
    and "\<And>x. isConnectedToPeer (clients s' x) = isConnectedToPeer (clients s x)"
    and "\<And>x. isMediaConnectedToPeer (clients s' x) = isMediaConnectedToPeer (clients s x)"
    and "\<And>h. CallerClient (hubs s' h) = CallerClient (hubs s h) \<or> CallerClient (hubs s' h) = None"
    and "\<And>h. CalleeClient (hubs s' h) = CalleeClient (hubs s h) \<or> CalleeClient (hubs s' h) = None"
  shows "calm s s'"
  using assms by (simp add: calm_def)

lemma peerConHasEnded_calm: "calm s (peerConHasEnded now co cause s)"
  by (auto simp: calm_def peerConHasEnded_def clearPeerFlags_def Let_def prim_simps
        endCallTimes_frame storeMissedCall_frame split: option.splits)

lemma sendWaitingAndMissed_calm: "sendWaitingAndMissed now c s = Inr s' \<Longrightarrow> calm s s'"
  by (auto simp: sendWaitingAndMissed_def Let_def prim_simps calm_def split: sum.splits prod.splits if_splits)

lemma Write_calm: "calm s (snd (Write c b s))"
  by (auto intro!: calmI simp: prim_simps)

lemma cmdInit_calm:
  assumes "cmdInit now c s = Inr s'"
  shows "calm s s'"
proof (cases "isCallee (clients s c) \<and> \<not> calleeInitReceived (clients s c) \<and> hub (clients s c) \<noteq> None")
  case False
  with assms have "s' = s \<or> s' = snd (Write c ''cancel|busy'' s)"
    by (auto simp: cmdInit_def split: if_splits option.splits)
  then show ?thesis using Write_calm calm_refl by auto
next
  case True
  then obtain h where h: "hub (clients s c) = Some h" by auto
  define s4 where "s4 = updClient c (\<lambda>C. C\<lparr>pickupSent := False, clearOnCloseDone := False,
                                                callerTextMsg := []\<rparr>)
         (updHub h (\<lambda>H. H\<lparr>CalleeLogin := True\<rparr>)
           (updClient c (\<lambda>C. C\<lparr>calleeInitReceived := True\<rparr>)
             (updHub h (\<lambda>H. H\<lparr>CallerClient := None\<rparr>) s)))"
  define s5 where "s5 = snd (Write c (''sessionId|'' @ calleeClientVersion (config s4)) s4)"
  have c4: "calm s s4"
    unfolding s4_def by (auto intro!: calmI simp: prim_simps split: if_splits)
  have c5: "calm s s5"
    unfolding s5_def using c4 Write_calm by (blast intro: calm_trans)
  from assms True h
  have "s' = s5 \<or> s' = snd (Write c (''status|'' @ updateMsg) s5)
          \<or> sendWaitingAndMissed now c s5 = Inr s'"
    by (auto simp: cmdInit_def Let_def s5_def s4_def split: if_splits)
  then show ?thesis
    using c5 Write_calm sendWaitingAndMissed_calm by (blast intro: calm_trans)
qed

lemma cmdMsg_calm: "calm s (cmdMsg c payload s)"
  by (auto intro!: calmI simp: cmdMsg_def Let_def prim_simps split: option.splits if_splits)

lemma cmdMissedcall_calm: "calm s (cmdMissedcall c payload s)"
  by (auto intro!: calmI simp: cmdMissedcall_def prim_simps split: if_splits)

lemma calm_Write: "calm s s1 \<Longrightarrow> calm s (snd (Write c b s1))"
  using Write_calm by (blast intro: calm_trans)

lemma calm_offerRing: "calm s s1 \<Longrightarrow> calm s (offerRing c h s1)"
proof -
  have "calm s1 (offerRing c h s1)"
    by (auto intro!: calmI simp: offerRing_def Let_def prim_simps split: if_splits)
  then show "calm s s1 \<Longrightarrow> calm s (offerRing c h s1)" by (blast intro: calm_trans)
qed

lemma calm_offerUa: "calm s s1 \<Longrightarrow> calm s (offerUa c h e k s1)"
  unfolding offerUa_def Let_def by (auto intro!: calm_Write calm_offerRing)

lemma calm_offerInfo: "calm s s1 \<Longrightarrow> calm s (offerInfo c h e k s1)"
  unfolding offerInfo_def Let_def by (auto intro!: calm_Write calm_offerUa)

lemma cmdCallerOffer_calm:
  assumes "cmdCallerOffer c message s = Inr s'"
  shows "calm s s'"
proof -
  have u: "calm s (updClient c (\<lambda>C. C\<lparr>callerOfferForwarded := True\<rparr>) (snd (Write e message s)))" for e
    by (auto intro!: calmI simp: prim_simps split: if_splits)
  with assms show ?thesis
    using Write_calm calm_refl
    by (auto simp: cmdCallerOffer_def Let_def intro!: calm_offerInfo split: if_splits option.splits)
qed

lemma cmdCancel_calm: "calm s (cmdCancel now c payload s)"
  by (auto simp: cmdCancel_def peerConHasEnded_calm calm_refl intro!: calmI simp: prim_simps split: option.splits if_splits)

lemma cmdCalleeHidden_calm: "cmdCalleeHidden c payload s = Inr s' \<Longrightarrow> calm s s'"
  by (auto intro!: calmI simp: cmdCalleeHidden_def Let_def prim_simps storeUserBit_frame split: option.splits if_splits)

lemma cmdDialsoundsmuted_calm: "cmdDialsoundsmuted c payload s = Inr s' \<Longrightarrow> calm s s'"
  by (auto intro!: calmI simp: cmdDialsoundsmuted_def Let_def prim_simps storeUserBit_frame split: option.splits if_splits)

lemma cmdPickupWaitingCaller_calm: "cmdPickupWaitingCaller c payload s = Inr s' \<Longrightarrow> calm s s'"
  by (auto intro!: calmI simp: cmdPickupWaitingCaller_def prim_simps split: if_splits)

lemma cmdDeleteMissedCall_calm: "cmdDeleteMissedCall c payload s = Inr s' \<Longrightarrow> calm s s'"
  by (auto intro!: calmI simp: cmdDeleteMissedCall_def Let_def prim_simps split: option.splits if_splits)

lemma cmdPickup_calm: "cmdPickup now c message s = Inr s' \<Longrightarrow> calm s s'"
  by (auto intro!: calmI simp: cmdPickup_def Let_def prim_simps split: option.splits if_splits)

lemma forward_calm: "calm s (forward c payload message s)"
  by (auto intro!: calmI simp: forward_def prim_simps split: option.splits if_splits)

lemma noPeerConWatchdog_calm: "noPeerConWatchdog c s = Inr s' \<Longrightarrow> calm s s'"
  by (auto intro!: calmI simp: noPeerConWatchdog_def Let_def prim_simps split: option.splits if_splits)

lemma doUnregister_calm: "calm s (doUnregister now h c comment s)"
  by (auto intro!: calmI simp: doUnregister_def Let_def prim_simps split: if_splits)

lemma OnClose_calm: "OnClose now c err s = Inr s' \<Longrightarrow> calm s s'"
proof -
  assume a: "OnClose now c err s = Inr s'"
  let ?s1 = "updClient c (\<lambda>C. C\<lparr>isOnline := False\<rparr>) s"
  let ?s2 = "if isCallee (clients ?s1 c) \<and> isConnectedToPeer (clients ?s1 c)
               then peerConHasEnded now (Some c) ''OnClose'' ?s1 else ?s1"
  have 1: "calm s ?s1" by (auto intro!: calmI simp: prim_simps split: if_splits)
  have 2: "calm ?s1 ?s2" by (simp add: peerConHasEnded_calm calm_refl)
  from a obtain h where "s' = doUnregister now h c (''OnClose'' @ err) ?s2"
    by (auto simp: OnClose_def Let_def split: option.splits if_splits)
  then have "calm ?s2 s'" by (simp add: doUnregister_calm)
  with 1 2 show ?thesis by (blast intro: calm_trans)
qed

lemma deadlineExpired_calm: "calm s (deadlineExpired now h cause s)"
  by (simp add: deadlineExpired_def peerConHasEnded_calm calm_refl)

section \<open>C3: media-connected implies peer-connected\<close>

lemma calm_peerInv: "calm s s' \<Longrightarrow> peerInv s \<Longrightarrow> peerInv s'"
  unfolding calm_def peerInv_def
  apply (intro conjI allI impI)
      apply (metis)
     apply (metis option.distinct(1))
    apply (metis option.distinct(1))
   apply (metis option.distinct(1))
  apply (metis option.distinct(1))
  done

lemma cmdLog_peerInv:
  assumes "cmdLog c payload s = Inr s'" and "peerInv s" and "c < nextClient s"
  shows "peerInv s'"
  using assms
  unfolding cmdLog_def Let_def peerInv_def
  by (auto simp: prim_simps setP2pFlags_frame calleeConnected_frame callerConnected_frame
        split: option.splits if_splits)

lemma serve_peerInv:
  assumes "serve now wsid d ra cid cname ua tls s = Inr s'" and "peerInv s"
  shows "peerInv s'"
proof -
  from assms(1) obtain h where h: "wsd_hub d = Some h"
    by (auto simp: serve_def split: option.splits)
  define n where "n = nextClient s"
  define s1 where "s1 = s\<lparr>clients := (clients s)(n := newClient d ra cid cname ua tls),
                            nextClient := Suc n\<rparr>"
  have nc: "\<not> isCallee (newClient d ra cid cname ua tls)"
    and nm: "\<not> isMediaConnectedToPeer (newClient d ra cid cname ua tls)"
    by (simp_all add: newClient_def)
  from assms(2) have old: "\<And>h k. CallerClient (hubs s h) = Some k \<Longrightarrow> k < n \<and> \<not> isCallee (clients s k)"
    and flags: "\<And>c. c < n \<Longrightarrow> isCallee (clients s c) \<Longrightarrow> isMediaConnectedToPeer (clients s c) \<Longrightarrow> isConnectedToPeer (clients s c)"
    and slots: "\<And>h e. CalleeClient (hubs s h) = Some e \<Longrightarrow> e < n \<and> isCallee (clients s e)"
    by (auto simp: peerInv_def n_def)
  have fresh: "\<And>h. CalleeClient (hubs s h) \<noteq> Some n" "\<And>h. CallerClient (hubs s h) \<noteq> Some n"
    using old slots by (auto dest: less_irrefl_nat)
  have s1: "nextClient s1 = Suc n" "hubs s1 = hubs s"
    "clients s1 = (clients s)(n := newClient d ra cid cname ua tls)"
    by (simp_all add: s1_def)
  consider
    (callee) "CalleeClient (hubs s h) = None"
      "\<exists>g. s' = updHub h g (updClient n (\<lambda>C. C\<lparr>isCallee := True, calleeInitReceived := False\<rparr>) s1)
           \<and> CallerClient (g (hubs s h)) = None \<and> CalleeClient (g (hubs s h)) = Some n"
  | (caller) "CallerClient (hubs s h) = None"
      "s' = updHub h (\<lambda>H. H\<lparr>CallDurationSecs := 0, CallerClient := Some n\<rparr>)
              (updClient n (\<lambda>C. C\<lparr>isCallee := False, callerOfferForwarded := False\<rparr>) s1)"
  | (neither) "s' = s1"
    using assms(1) h
    unfolding serve_def Let_def n_def [symmetric] s1_def [symmetric]
    by (simp add: s1 updHub_def split: if_splits) force+
  then show ?thesis
  proof cases
    case callee
    then obtain g where g: "s' = updHub h g (updClient n (\<lambda>C. C\<lparr>isCallee := True, calleeInitReceived := False\<rparr>) s1)"
      "CallerClient (g (hubs s h)) = None" "CalleeClient (g (hubs s h)) = Some n" by blast
    show ?thesis
      unfolding peerInv_def g(1)
      using old flags slots fresh nm g(2,3)
      by (auto simp: prim_simps s1 less_Suc_eq split: if_splits)
  next
    case caller
    show ?thesis
      unfolding peerInv_def caller(2)
      using old flags slots fresh nc nm
      by (auto simp: prim_simps s1 less_Suc_eq split: if_splits)
  next
    case neither
    show ?thesis
      unfolding peerInv_def neither
      using old flags slots fresh nc nm
      by (auto simp: s1 less_Suc_eq split: if_splits)
  qed
qed

lemma dispatch_peerInv:
  assumes "dispatch now c cmd payload message s = Inr s'" and "peerInv s" and "c < nextClient s"
  shows "peerInv s'"
proof (cases "cmd = ''log''")
  case True
  with assms show ?thesis by (simp add: dispatch_def cmdLog_peerInv)
next
  case False
  with assms(1) have "calm s s'"
    by (auto simp: dispatch_def calm_refl cmdInit_calm cmdMsg_calm cmdMissedcall_calm
          cmdCallerOffer_calm cmdCancel_calm cmdCalleeHidden_calm cmdDialsoundsmuted_calm
          cmdPickupWaitingCaller_calm cmdDeleteMissedCall_calm cmdPickup_calm Write_calm
          forward_calm split: if_splits)
  with assms(2) show ?thesis using calm_peerInv by blast
qed

lemma receiveProcess_peerInv:
  "receiveProcess now c message s = Inr s' \<Longrightarrow> peerInv s \<Longrightarrow> c < nextClient s \<Longrightarrow> peerInv s'"
  by (auto simp: receiveProcess_def dispatch_peerInv split: option.splits)

lemma initial_peerInv: "initial s \<Longrightarrow> peerInv s"
  by (simp add: initial_def peerInv_def)

lemma seqReachable_peerInv: "seqReachable s \<Longrightarrow> peerInv s"
proof (induction rule: seqReachable.induct)
  case (start s)
  then show ?case by (rule initial_peerInv)
next
  case (attach s now wsid d remoteAddr cid cname ua tls s')
  then show ?case using serve_peerInv by blast
next
  case (frame s c message now s')
  then show ?case using receiveProcess_peerInv by blast
next
  case (closed s c now err s')
  then show ?case using OnClose_calm calm_peerInv by blast
next
  case (watchdog s c s')
  then show ?case using noPeerConWatchdog_calm calm_peerInv by blast
next
  case (expiry s now h cause)
  then show ?case using deadlineExpired_calm calm_peerInv by blast
qed

text \<open>
  C3, as the code has it when handlers do not overlap. In every state of a sequential
  run, every endpoint of role callee that is media-connected is also peer-connected.
  For an endpoint of role caller the code does not keep this, and for a callee it does
  not keep it when a teardown overlaps the callee's report handler; both are shown
  below.
\<close>

theorem callee_media_implies_connected:
  "seqReachable s \<Longrightarrow> c < nextClient s \<Longrightarrow> isCallee (clients s c) \<Longrightarrow>
   isMediaConnectedToPeer (clients s c) \<Longrightarrow> isConnectedToPeer (clients s c)"
  using seqReachable_peerInv [of s] by (simp add: peerInv_def)

text \<open>The theorem at the callee of \<open>mediaSys\<close>, after its \<open>Connected\<close> report.\<close>

theorem callee_media_implies_connected_witness:
  "seqReachable mediaSys \<and> isCallee (clients mediaSys 0) \<and>
   isMediaConnectedToPeer (clients mediaSys 0) \<and> isConnectedToPeer (clients mediaSys 0)"
  using callee_media_implies_connected [of mediaSys 0] seqReachable_mediaSys mediaSys_flags
  by simp

text \<open>
  C3 as stated fails, already in a sequential run: callee and caller attach and the
  callee reports \<open>log|callee Connected p2p/p2p\<close>. The report marks the caller
  media-connected, and the caller, which has reported nothing, is not peer-connected.
\<close>

theorem caller_media_without_peer_flag:
  "seqReachable mediaSys \<and> 1 < nextClient mediaSys \<and> \<not> isCallee (clients mediaSys 1) \<and>
   isMediaConnectedToPeer (clients mediaSys 1) \<and> \<not> isConnectedToPeer (clients mediaSys 1)"
  using seqReachable_mediaSys mediaSys_flags by simp

text \<open>
  The restriction to sequential runs is needed. The callee's report handler is its
  first part, up to \<open>midLogSys\<close>, followed by lines 953-984; in \<open>midLogSys\<close> the callee
  is peer-connected, so the caller's \<open>cancel\<close> there runs \<^verbatim>\<open>peerConHasEnded\<close> on the
  callee, which passes through \<open>midTeardownSys\<close> with the caller still in its slot.
  When the rest of the report handler runs from there, the callee ends up
  media-connected and not peer-connected.
\<close>

lemma overlapping_report_and_teardown:
  "cmdLog 0 ''callee Connected p2p/p2p'' pairSys = Inr (calleeConnected 0 0 1 midLogSys) \<and>
   isConnectedToPeer (clients midLogSys 0) \<and>
   receiveProcess 50 1 ''cancel|bye'' midLogSys
     = Inr (peerConHasEnded 50 (Some 0) ''cancel'' midLogSys) \<and>
   peerConHasEnded 50 (Some 0) ''cancel'' midLogSys
     = updHub 0 (\<lambda>H. H\<lparr>CallerClient := None\<rparr>)
         (StoreCallerIpInHubMap ''alice'' []
            (storeMissedCall 50 0 0 ''cancel''
               (emit (External ''delete recentTurnCalleeIps'' [''10.0.0.2'']) midTeardownSys))) \<and>
   CallerClient (hubs midTeardownSys 0) = Some 1 \<and>
   isCallee (clients raceSys 0) \<and> isMediaConnectedToPeer (clients raceSys 0) \<and>
   \<not> isConnectedToPeer (clients raceSys 0)"
proof (intro conjI)
  have c0: "clients midLogSys 0 = (clients pairSys 0)\<lparr>isConnectedToPeer := True\<rparr>"
    and c1: "clients midLogSys (Suc 0) = clients pairSys (Suc 0)"
    and h0: "CallerClient (hubs midLogSys 0) = Some 1" "CalleeClient (hubs midLogSys 0) = Some 0"
    by (simp_all add: midLogSys_def setP2pFlags_frame prim_simps pairSys_fields hub0_def)
  show "cmdLog 0 ''callee Connected p2p/p2p'' pairSys = Inr (calleeConnected 0 0 1 midLogSys)"
    by (simp add: cmdLog_def midLogSys_def pairSys_fields hub0_def newClient_def ticket0_def
          Let_def trim_ex index_def isPeerConstate_def prim_simps setP2pFlags_frame)
  show "isConnectedToPeer (clients midLogSys 0)" by (simp add: c0)
  show "receiveProcess 50 1 ''cancel|bye'' midLogSys
          = Inr (peerConHasEnded 50 (Some 0) ''cancel'' midLogSys)"
    by (simp add: receiveProcess_def log_frames dispatch_def cmdCancel_def c0 c1 h0
          pairSys_one newClient_def ticket0_def)
  have cl: "clients midTeardownSys 0
              = (clients pairSys 0)\<lparr>isConnectedToPeer := False, isMediaConnectedToPeer := False,
                                       calleeInitReceived := False\<rparr>"
    by (simp add: midTeardownSys_def clearPeerFlags_def Let_def prim_simps endCallTimes_frame
          c0 h0 pairSys_fields newClient_def)
  have cl1: "RemoteAddrNoPort (clients midTeardownSys (Suc 0)) = ''10.0.0.2''"
    by (simp add: midTeardownSys_def clearPeerFlags_def Let_def prim_simps endCallTimes_frame
          c1 h0 pairSys_one newClient_def ticket0_def)
  show t: "CallerClient (hubs midTeardownSys 0) = Some 1"
    by (simp add: midTeardownSys_def clearPeerFlags_frame prim_simps endCallTimes_frame h0)
  show "peerConHasEnded 50 (Some 0) ''cancel'' midLogSys
          = updHub 0 (\<lambda>H. H\<lparr>CallerClient := None\<rparr>)
              (StoreCallerIpInHubMap ''alice'' []
                 (storeMissedCall 50 0 0 ''cancel''
                    (emit (External ''delete recentTurnCalleeIps'' [''10.0.0.2'']) midTeardownSys)))"
    using t
    by (simp add: peerConHasEnded_def Let_def c0 pairSys_fields newClient_def ticket0_def
          endCallTimes_frame prim_simps midTeardownSys_def [symmetric] storeMissedCall_frame
          clearPeerFlags_frame pairSys_one cl cl1)
  show "isCallee (clients raceSys 0)" "isMediaConnectedToPeer (clients raceSys 0)"
    "\<not> isConnectedToPeer (clients raceSys 0)"
    by (simp_all add: raceSys_def calleeConnected_frame cl pairSys_fields newClient_def)
qed

section \<open>C2: the peer flag at a report and at teardown\<close>







section \<open>C4: pickup\<close>

lemma cmdPickup_ignored:
  "\<not> isConnectedToPeer (clients s c) \<or> pickupSent (clients s c) \<Longrightarrow>
   cmdPickup now c message s = Inr s"
  by (auto simp: cmdPickup_def)

lemma cmdPickup_accepted:
  assumes "isConnectedToPeer (clients s c)" "\<not> pickupSent (clients s c)"
    and "hub (clients s c) = Some h"
  shows "\<exists>s'. cmdPickup now c message s = Inr s' \<and>
           lastCallStartTime (hubs s' h) = now \<and> deadline (hubs s' h) = 0 \<and>
           (CallerClient (hubs s h) = None \<longrightarrow> out s' = out s \<and> \<not> pickupSent (clients s' c)) \<and>
           (\<forall>k. CallerClient (hubs s h) = Some k \<longrightarrow>
                  pickupSent (clients s' c) \<and>
                  out s' = out s @ (if isOnline (clients s k) then [TextFrame k message] else []))"
  using assms
  by (auto simp: cmdPickup_def Let_def prim_simps prim_out split: option.splits)

text \<open>
  The two tests of the \<open>pickup\<close> branch (lines 817-852) and its effects. A frame is
  ignored when the sender is not peer-connected or has its \<open>pickupSent\<close> set. Otherwise
  \<open>lastCallStartTime\<close> becomes the current time and the deadline is disarmed; when the
  hub has a caller the frame is written to it and \<open>pickupSent\<close> is latched, when it has
  none nothing is written and \<open>pickupSent\<close> stays unset. The sender's \<open>isCallee\<close> is not
  among the hypotheses: the branch does not read it.
\<close>

theorem pickup_accepted:
  "(CHR ''|'' \<notin> set payload \<and> (\<not> isConnectedToPeer (clients s c) \<or> pickupSent (clients s c))
    \<longrightarrow> receiveProcess now c (''pickup|'' @ payload) s = Inr s) \<and>
   (CHR ''|'' \<notin> set payload \<and> isConnectedToPeer (clients s c) \<and> \<not> pickupSent (clients s c) \<and>
    hub (clients s c) = Some h
    \<longrightarrow> (\<exists>s'. receiveProcess now c (''pickup|'' @ payload) s = Inr s' \<and>
           lastCallStartTime (hubs s' h) = now \<and> deadline (hubs s' h) = 0 \<and>
           (CallerClient (hubs s h) = None \<longrightarrow> out s' = out s \<and> \<not> pickupSent (clients s' c)) \<and>
           (\<forall>k. CallerClient (hubs s h) = Some k \<longrightarrow>
                  pickupSent (clients s' c) \<and>
                  out s' = out s @ (if isOnline (clients s k)
                                    then [TextFrame k (''pickup|'' @ payload)] else []))))"
proof -
  have f: "CHR ''|'' \<notin> set payload \<Longrightarrow>
           receiveProcess now c (''pickup|'' @ payload) s = cmdPickup now c (''pickup|'' @ payload) s"
    using splitFrame_cmd [of "''pickup''" payload] by (simp add: receiveProcess_def dispatch_def)
  show ?thesis
    using f cmdPickup_ignored [of s c now "''pickup|'' @ payload"]
      cmdPickup_accepted [of s c h now "''pickup|'' @ payload"]
    by auto
qed

text \<open>The theorem at the connected callee of \<open>ringSys\<close> and at the unconnected callee of \<open>pairSys\<close>.\<close>

theorem pickup_accepted_witness:
  "isCallee (clients ringSys 0) \<and>
   (\<exists>s'. receiveProcess 100 0 ''pickup|'' ringSys = Inr s' \<and>
      lastCallStartTime (hubs s' 0) = 100 \<and> deadline (hubs s' 0) = 0 \<and>
      pickupSent (clients s' 0) \<and> out s' = [TextFrame 1 ''pickup|'']) \<and>
   receiveProcess 100 0 ''pickup|'' pairSys = Inr pairSys"
  using pickup_accepted [of "[]" ringSys 0 100 0] pickup_accepted [of "[]" pairSys 0 100 0]
  by (auto simp: ringSys_fields pairSys_fields pairSys_one newClient_def ticket0_def)

text \<open>
  C4 fails on the code. The branch is commented \<^verbatim>\<open>this is sent by the callee client\<close>
  and forwards to \<^verbatim>\<open>hub.CallerClient\<close>, and the \<open>init\<close> branch refuses a sender that is
  not the callee (lines 399-403); the \<open>pickup\<close> branch has no such test. \<open>callSys\<close> is
  the state after callee and caller have attached and the caller has reported
  \<open>log|caller Incoming p2p/p2p\<close>, which makes the caller peer-connected. There the
  caller sends \<open>pickup|\<close> at time \<open>100\<close>: the frame is accepted, the call clock starts,
  the frame is written back to the caller itself, and \<open>pickupSent\<close> is latched on the
  caller.
\<close>

theorem pickup_from_caller_accepted:
  "\<not> isCallee (clients callSys 1) \<and> lastCallStartTime (hubs callSys 0) = 0 \<and>
   \<not> pickupSent (clients callSys 1) \<and> out callSys = [] \<and>
   (\<exists>s'. receiveProcess 100 1 ''pickup|'' callSys = Inr s' \<and>
      lastCallStartTime (hubs s' 0) = 100 \<and> pickupSent (clients s' 1) \<and>
      out s' = [TextFrame 1 ''pickup|''])"
proof -
  have "\<exists>s'. cmdPickup 100 1 ''pickup|'' callSys = Inr s' \<and>
           lastCallStartTime (hubs s' 0) = 100 \<and> deadline (hubs s' 0) = 0 \<and>
           (CallerClient (hubs callSys 0) = None \<longrightarrow> out s' = out callSys \<and> \<not> pickupSent (clients s' 1)) \<and>
           (\<forall>k. CallerClient (hubs callSys 0) = Some k \<longrightarrow>
                  pickupSent (clients s' 1) \<and>
                  out s' = out callSys @ (if isOnline (clients callSys k) then [TextFrame k ''pickup|''] else []))"
    by (rule cmdPickup_accepted)
       (simp_all add: callSys_fields pairSys_one newClient_def ticket0_def)
  then show ?thesis
    by (auto simp: receiveProcess_def log_frames dispatch_def callSys_fields pairSys_one newClient_def)
qed

section \<open>C8: cancel\<close>

text \<open>
  C8, as the code has it. On \<open>cancel\<close>: when the hub's callee is peer-connected,
  \<^verbatim>\<open>peerConHasEnded("cancel")\<close> runs on it; when the hub has a callee that is not
  peer-connected, the frame is ignored and nothing is closed; when the hub has no
  callee, the sender is closed (a close frame goes out if the sender is online); when
  the sender has no hub, the frame is ignored.
\<close>

theorem cancel_cases:
  "(CHR ''|'' \<notin> set reason \<and> hub (clients s c) = Some h \<and> CalleeClient (hubs s h) = Some e \<and>
    isConnectedToPeer (clients s e)
    \<longrightarrow> receiveProcess now c (''cancel|'' @ reason) s
          = Inr (peerConHasEnded now (Some e) ''cancel'' s)) \<and>
   (CHR ''|'' \<notin> set reason \<and> hub (clients s c) = Some h \<and> CalleeClient (hubs s h) = Some e \<and>
    \<not> isConnectedToPeer (clients s e)
    \<longrightarrow> receiveProcess now c (''cancel|'' @ reason) s = Inr s) \<and>
   (CHR ''|'' \<notin> set reason \<and> hub (clients s c) = Some h \<and> CalleeClient (hubs s h) = None
    \<longrightarrow> receiveProcess now c (''cancel|'' @ reason) s = Inr (Close c ''callee already closed'' s) \<and>
        out (Close c ''callee already closed'' s)
          = out s @ (if isOnline (clients s c) then [CloseFrame c] else [])) \<and>
   (CHR ''|'' \<notin> set reason \<and> hub (clients s c) = None
    \<longrightarrow> receiveProcess now c (''cancel|'' @ reason) s = Inr s)"
proof -
  have f: "CHR ''|'' \<notin> set reason \<Longrightarrow>
           receiveProcess now c (''cancel|'' @ reason) s = Inr (cmdCancel now c reason s)"
    using splitFrame_cmd [of "''cancel''" reason] by (simp add: receiveProcess_def dispatch_def)
  show ?thesis
    using f by (auto simp: cmdCancel_def prim_out)
qed

text \<open>
  The theorem at the connected callee of \<open>callSys\<close>, at \<open>goneSys\<close> whose callee has left,
  at the unconnected callee of \<open>pairSys\<close>, and at a client without a hub.
\<close>

theorem cancel_cases_witness:
  "isConnectedToPeer (clients callSys 0) \<and>
   receiveProcess 50 1 ''cancel|bye'' callSys = Inr (peerConHasEnded 50 (Some 0) ''cancel'' callSys) \<and>
   CalleeClient (hubs goneSys 0) = None \<and>
   receiveProcess 70 1 ''cancel|bye'' goneSys = Inr (Close 1 ''callee already closed'' goneSys) \<and>
   out (Close 1 ''callee already closed'' goneSys) = [CloseFrame 1] \<and>
   \<not> isConnectedToPeer (clients pairSys 0) \<and>
   receiveProcess 50 1 ''cancel|bye'' pairSys = Inr pairSys \<and>
   receiveProcess 50 0 ''cancel|bye'' sys0 = Inr sys0"
  using cancel_cases [of "''bye''" callSys 1 0 0 50] cancel_cases [of "''bye''" goneSys 1 0 0 70]
    cancel_cases [of "''bye''" pairSys 1 0 0 50] cancel_cases [of "''bye''" sys0 0 0 0 50]
  by (simp add: callSys_fields goneSys_fields pairSys_fields pairSys_one newClient_def ticket0_def
        hub0_def sys0_def client0_def)

text \<open>
  C8 as stated fails: in \<open>pairSys\<close> the callee is attached but not peer-connected; the
  caller's \<open>cancel\<close> changes nothing, and the caller's socket is not closed.
\<close>

theorem cancel_unconnected_callee_ignored:
  "CalleeClient (hubs pairSys 0) = Some 0 \<and> \<not> isConnectedToPeer (clients pairSys 0) \<and>
   isOnline (clients pairSys 1) \<and> out pairSys = [] \<and>
   receiveProcess 50 1 ''cancel|bye'' pairSys = Inr pairSys \<and>
   out (Close 1 ''callee already closed'' pairSys) = [CloseFrame 1]"
  by (simp add: receiveProcess_def log_frames dispatch_def cmdCancel_def pairSys_fields pairSys_one
        hub0_def newClient_def ticket0_def prim_out)

section \<open>C7: peerConHasEnded on a caller endpoint\<close>

text \<open>What a call on an endpoint of role caller leaves alone: every client and both slots.\<close>

lemma peerConHasEnded_caller_frame:
  assumes "\<not> isCallee (clients s c)"
  shows "clients (peerConHasEnded now (Some c) cause s) = clients s"
    and "CalleeClient (hubs (peerConHasEnded now (Some c) cause s) x) = CalleeClient (hubs s x)"
    and "CallerClient (hubs (peerConHasEnded now (Some c) cause s) x) = CallerClient (hubs s x)"
  using assms
  by (auto simp: peerConHasEnded_def Let_def endCallTimes_frame split: option.splits)

text \<open>
  No call site passes an endpoint of role caller. \<^verbatim>\<open>OnClose\<close> (line 260) calls
  \<^verbatim>\<open>peerConHasEnded\<close> under the test \<^verbatim>\<open>client.isCallee\<close>; \<open>cancel\<close> (line 649) and the
  deadline timer call it on the hub's callee slot, and in a sequential run that slot
  holds an endpoint of role callee.
\<close>

lemma callee_slot_holds_callee:
  "seqReachable s \<Longrightarrow> CalleeClient (hubs s h) = Some e \<Longrightarrow> isCallee (clients s e)"
  using seqReachable_peerInv [of s] by (simp add: peerInv_def)




section \<open>C6: the missed call\<close>

lemma peerConHasEnded_no_missed:
  "\<not> isConnectedToPeer (clients s c) \<Longrightarrow>
   missedCallsDb (peerConHasEnded now (Some c) cause s) = missedCallsDb s"
  by (auto simp: peerConHasEnded_def Let_def prim_simps prim_db endCallTimes_frame
        endCallTimes_frame2 split: option.splits)

lemma peerConHasEnded_missed:
  assumes "hub (clients s c) = Some h" "isCallee (clients s c)" "isConnectedToPeer (clients s c)"
    and "CallDurationSecs (hubs (endCallTimes now h cause s) h) \<le>s 0"
    and "userDb s (userKey c h s) = Some u" "StoreMissedCalls u"
  shows "missedCallsDb (peerConHasEnded now (Some c) cause s) =
           (missedCallsDb s)(calleeID (clients s c) :=
              missedCallsDb s (calleeID (clients s c)) @
              [\<lparr>AddrPort = (case CallerClient (hubs s h) of
                              None \<Rightarrow> [] | Some k \<Rightarrow> RemoteAddrNoPort (clients s k)),
                CallerName = (case CallerClient (hubs s h) of
                                None \<Rightarrow> [] | Some k \<Rightarrow> callerName (clients s k)),
                CallTime = now,
                CallerID = (case CallerClient (hubs s h) of
                              None \<Rightarrow> [] | Some k \<Rightarrow> callerID (clients s k)),
                Msg = callerTextMsg (clients s c)\<rparr>])"
proof -
  define s3 where "s3 = updClient c (\<lambda>C. C\<lparr>calleeInitReceived := False\<rparr>) (endCallTimes now h cause s)"
  define s5 where "s5 = clearPeerFlags c h s3"
  define s6 where "s6 = (case CallerClient (hubs s5 h) of
                           None \<Rightarrow> s5
                         | Some k \<Rightarrow> emit (External ''delete recentTurnCalleeIps''
                                              [RemoteAddrNoPort (clients s5 k)]) s5)"
  have hubs6: "hubs s6 = hubs (endCallTimes now h cause s)"
    by (simp add: s6_def s5_def s3_def clearPeerFlags_frame prim_simps split: option.splits)
  have db6: "missedCallsDb s6 = missedCallsDb s" "userDb s6 = userDb s"
    by (simp_all add: s6_def s5_def s3_def clearPeerFlags_frame prim_db endCallTimes_frame2
          split: option.splits)
  have cl6: "calleeID (clients s6 x) = calleeID (clients s x)"
    "callerID (clients s6 x) = callerID (clients s x)"
    "callerName (clients s6 x) = callerName (clients s x)"
    "callerTextMsg (clients s6 x) = callerTextMsg (clients s x)"
    "RemoteAddrNoPort (clients s6 x) = RemoteAddrNoPort (clients s x)" for x
    by (simp_all add: s6_def s5_def s3_def clearPeerFlags_frame prim_simps endCallTimes_frame
          split: option.splits)
  have key: "userKey c h s6 = userKey c h s"
    by (simp add: userKey_def cl6 hubs6 endCallTimes_frame)
  have st: "storeMissedCall now c h cause s6 =
              addMissedCall (calleeID (clients s c))
                \<lparr>AddrPort = (case CallerClient (hubs s h) of
                              None \<Rightarrow> [] | Some k \<Rightarrow> RemoteAddrNoPort (clients s k)),
                CallerName = (case CallerClient (hubs s h) of
                                None \<Rightarrow> [] | Some k \<Rightarrow> callerName (clients s k)),
                CallTime = now,
                CallerID = (case CallerClient (hubs s h) of
                              None \<Rightarrow> [] | Some k \<Rightarrow> callerID (clients s k)),
                Msg = callerTextMsg (clients s c)\<rparr> cause s6"
    using assms(4,5,6)
    by (simp add: storeMissedCall_def Let_def key db6 hubs6 cl6 endCallTimes_frame
          cong: option.case_cong)
  have "peerConHasEnded now (Some c) cause s =
          updHub h (\<lambda>H. H\<lparr>CallerClient := None\<rparr>)
            (StoreCallerIpInHubMap (globalCalleeID (clients (storeMissedCall now c h cause s6) c)) []
               (storeMissedCall now c h cause s6))"
    using assms(1,2,3)
    by (simp add: peerConHasEnded_def Let_def s6_def s5_def s3_def endCallTimes_frame prim_simps
          cong: option.case_cong)
  then show ?thesis
    by (simp add: st prim_db db6)
qed

text \<open>
  C6, as the code has it. \<^verbatim>\<open>peerConHasEnded\<close> on a callee endpoint that is
  peer-connected, with a call duration of at most \<open>0\<close> once the time values are
  processed and a user record that opted in, calls \<^verbatim>\<open>addMissedCall\<close> once: exactly
  one record is appended to the callee's missed calls, stamped with the current time
  and carrying the caller's message. The processed duration is the hub's \<open>CallDurationSecs\<close> when no call was
  picked up. On an endpoint that is not peer-connected nothing is appended.
\<close>

theorem missed_call_law:
  "(hub (clients s c) = Some h \<and> isCallee (clients s c) \<and> isConnectedToPeer (clients s c) \<and>
    CallDurationSecs (hubs (endCallTimes now h cause s) h) \<le>s 0 \<and>
    userDb s (userKey c h s) = Some u \<and> StoreMissedCalls u
    \<longrightarrow> (\<exists>ci. missedCallsDb (peerConHasEnded now (Some c) cause s) =
                 missedCallsDb (addMissedCall (calleeID (clients s c)) ci cause s) \<and>
               missedCallsDb (peerConHasEnded now (Some c) cause s) =
                 (missedCallsDb s)(calleeID (clients s c) :=
                    missedCallsDb s (calleeID (clients s c)) @ [ci]) \<and>
               CallTime ci = now \<and> Msg ci = callerTextMsg (clients s c))) \<and>
   (\<not> 0 <s lastCallStartTime (hubs s h)
    \<longrightarrow> CallDurationSecs (hubs (endCallTimes now h cause s) h) = CallDurationSecs (hubs s h)) \<and>
   (\<not> isConnectedToPeer (clients s c)
    \<longrightarrow> missedCallsDb (peerConHasEnded now (Some c) cause s) = missedCallsDb s)"
  using peerConHasEnded_missed [of s c h now cause u] peerConHasEnded_no_missed [of s c now cause]
    endCallTimes_frame2(3) [of s h now cause]
  by (auto simp: prim_db)

text \<open>The theorem at the connected callee of \<open>ringSys\<close>: one record where there was none.\<close>

theorem missed_call_law_witness:
  "isConnectedToPeer (clients ringSys 0) \<and> missedCallsDb ringSys ''alice'' = [] \<and>
   length (missedCallsDb (peerConHasEnded 100 (Some 0) ''cancel'' ringSys) ''alice'') = 1"
  using missed_call_law [of ringSys 0 0 100 "''cancel''" user0]
  by (auto simp: ringSys_fields pairSys_fields newClient_def ticket0_def userKey_alice
        endCallTimes_frame2 user0_def prim_db)

text \<open>
  C6 as stated fails: in \<open>pairSys\<close> the call duration is \<open>0\<close> and the user opted in,
  but the callee is not peer-connected, and the teardown appends nothing.
\<close>

theorem unconnected_teardown_stores_nothing:
  "isCallee (clients pairSys 0) \<and> hub (clients pairSys 0) = Some 0 \<and>
   CallDurationSecs (hubs pairSys 0) = 0 \<and>
   CallDurationSecs (hubs (endCallTimes 100 0 ''deadline'' pairSys) 0) = 0 \<and>
   userDb pairSys (userKey 0 0 pairSys) = Some user0 \<and> StoreMissedCalls user0 \<and>
   missedCallsDb (peerConHasEnded 100 (Some 0) ''deadline'' pairSys) ''alice'' = []"
  by (simp add: pairSys_fields newClient_def ticket0_def userKey_alice hub0_def user0_def
        endCallTimes_frame2 peerConHasEnded_no_missed)

end
